theory Spec2Isabelle
  imports Complex_Main
begin

section \<open>Python values used by the portal\<close>

text \<open>
  The portal is a Flask application over a relational store. The model below follows the
  request handlers of \<^verbatim>\<open>app/auth/routes.py\<close>, \<^verbatim>\<open>app/mfa/routes.py\<close> and
  \<^verbatim>\<open>app/finance/routes.py\<close> and the tables of \<^verbatim>\<open>app/models.py\<close>.

  Conventions of the embedding:
  \<^item> a \<^verbatim>\<open>str\<close> is a \<^typ>\<open>string\<close> whose characters are the code points U+0000 to U+00FF;
  \<^item> a \<^verbatim>\<open>Decimal\<close> in a handler is an exact rational number (\<^verbatim>\<open>-=\<close>, \<^verbatim>\<open>+=\<close>, unary
    minus and the comparisons are exact on the values that occur); what a
    \<^verbatim>\<open>Numeric(14, 2)\<close> column holds after a commit is the written value rounded by the
    storage engine (\<open>quantize\<close> below); the special values (NaN, infinities) are not
    represented;
  \<^item> a \<^verbatim>\<open>datetime\<close> is an integer number of microseconds, and every handler reads the
    clock once (\<open>now\<close>);
  \<^item> the random draw of \<^verbatim>\<open>random.randint(0, 999999)\<close> is an argument \<open>r\<close> of the handler.
\<close>

type_synonym decimal = rat
type_synonym datetime = int

definition timedelta_minutes :: "int \<Rightarrow> int" where
  "timedelta_minutes m = m * 60000000"

text \<open>\<^verbatim>\<open>str.isspace\<close> on the code points below U+0100, and \<^verbatim>\<open>str.strip()\<close>.\<close>

definition is_space :: "char \<Rightarrow> bool" where
  "is_space c =
     (let n = (of_char c :: nat)
      in (9 \<le> n \<and> n \<le> 13) \<or> (28 \<le> n \<and> n \<le> 32) \<or> n = 133 \<or> n = 160)"

definition strip :: "string \<Rightarrow> string" where
  "strip s = rev (dropWhile is_space (rev (dropWhile is_space s)))"

text \<open>\<^verbatim>\<open>str.lower()\<close>: the ASCII capitals and the Latin-1 capitals U+00C0 to U+00DE
  (without the multiplication sign U+00D7) move up by 32.\<close>

definition upper_chars :: "char list" where
  "upper_chars = ''ABCDEFGHIJKLMNOPQRSTUVWXYZ'' @
     [CHR 0xC0, CHR 0xC1, CHR 0xC2, CHR 0xC3, CHR 0xC4, CHR 0xC5, CHR 0xC6, CHR 0xC7,
      CHR 0xC8, CHR 0xC9, CHR 0xCA, CHR 0xCB, CHR 0xCC, CHR 0xCD, CHR 0xCE, CHR 0xCF,
      CHR 0xD0, CHR 0xD1, CHR 0xD2, CHR 0xD3, CHR 0xD4, CHR 0xD5, CHR 0xD6,
      CHR 0xD8, CHR 0xD9, CHR 0xDA, CHR 0xDB, CHR 0xDC, CHR 0xDD, CHR 0xDE]"

definition lower_chars :: "char list" where
  "lower_chars = ''abcdefghijklmnopqrstuvwxyz'' @
     [CHR 0xE0, CHR 0xE1, CHR 0xE2, CHR 0xE3, CHR 0xE4, CHR 0xE5, CHR 0xE6, CHR 0xE7,
      CHR 0xE8, CHR 0xE9, CHR 0xEA, CHR 0xEB, CHR 0xEC, CHR 0xED, CHR 0xEE, CHR 0xEF,
      CHR 0xF0, CHR 0xF1, CHR 0xF2, CHR 0xF3, CHR 0xF4, CHR 0xF5, CHR 0xF6,
      CHR 0xF8, CHR 0xF9, CHR 0xFA, CHR 0xFB, CHR 0xFC, CHR 0xFD, CHR 0xFE]"

definition lower_char :: "char \<Rightarrow> char" where
  "lower_char c = (case map_of (zip upper_chars lower_chars) c of None \<Rightarrow> c | Some l \<Rightarrow> l)"

definition lower :: "string \<Rightarrow> string" where
  "lower s = map lower_char s"

text \<open>\<^verbatim>\<open>x or d\<close> for an optional string: \<^verbatim>\<open>None\<close> and the empty string are falsy.\<close>

definition or_str :: "string option \<Rightarrow> string \<Rightarrow> string" where
  "or_str x d = (case x of None \<Rightarrow> d | Some s \<Rightarrow> if s = [] then d else s)"

text \<open>A form or a payload dictionary. \<^verbatim>\<open>d.get(k)\<close> is \<^verbatim>\<open>None\<close> for a missing key and for
  a key stored with \<^verbatim>\<open>None\<close>; \<^verbatim>\<open>d.get(k, default)\<close> gives the default for a missing key
  only.\<close>

type_synonym form = "(string \<times> string) list"
type_synonym payload = "(string \<times> string option) list"

definition form_get :: "form \<Rightarrow> string \<Rightarrow> string option" where
  "form_get f k = map_of f k"

definition form_get_default :: "form \<Rightarrow> string \<Rightarrow> string \<Rightarrow> string" where
  "form_get_default f k d = (case map_of f k of None \<Rightarrow> d | Some v \<Rightarrow> v)"

definition payload_get :: "payload \<Rightarrow> string \<Rightarrow> string option" where
  "payload_get p k = (case map_of p k of None \<Rightarrow> None | Some v \<Rightarrow> v)"

definition payload_get_default :: "payload \<Rightarrow> string \<Rightarrow> string \<Rightarrow> string option" where
  "payload_get_default p k d = (case map_of p k of None \<Rightarrow> Some d | Some v \<Rightarrow> v)"

text \<open>\<^verbatim>\<open>f"{random.randint(0, 999999):06d}"\<close>: the six decimal digits of the draw.\<close>

definition digit_char :: "nat \<Rightarrow> char" where
  "digit_char d = ''0123456789'' ! (d mod 10)"

definition generate_otp_code :: "nat \<Rightarrow> string" where
  "generate_otp_code r =
     [digit_char (r div 100000), digit_char (r div 10000), digit_char (r div 1000),
      digit_char (r div 100), digit_char (r div 10), digit_char r]"

section \<open>Collaborators outside the repository's sources\<close>

text \<open>
  The handlers call library and repository code that is not part of the sources at hand.
  It is taken as a parameter, so every theorem holds whatever these functions compute:
  \<^item> \<open>Decimal\<close>: the constructor \<^verbatim>\<open>decimal.Decimal(str)\<close>; \<open>None\<close> when it raises;
  \<^item> \<open>sql_int\<close>: the integer that the storage engine compares with an integer column
    when the query parameter is a string (\<^verbatim>\<open>filter_by(id=from_id)\<close> with the raw form
    field); \<open>None\<close> when the string equals no integer;
  \<^item> \<open>hash_password\<close>, \<open>check_password\<close>: \<^verbatim>\<open>app/security.py\<close>;
  \<^item> \<open>confirm_email_token\<close>: the signed-token check of \<^verbatim>\<open>app/email_utils.py\<close>, \<open>None\<close>
    when it raises;
  \<^item> \<open>OTP_EXP_MINUTES\<close>: the entry of \<^verbatim>\<open>app/config.py\<close>, \<open>None\<close> when it is not set;
  \<^item> \<open>quantize\<close>: the value that a \<^verbatim>\<open>Numeric(14, 2)\<close> column of the storage engine holds,
    and gives back, for a \<^verbatim>\<open>Decimal\<close> written to it. The handlers never round an amount
    themselves, so this is the only rounding there is.
  Sending e-mail changes neither the store nor the session and is not modelled.
\<close>

record env =
  Decimal :: "string \<Rightarrow> decimal option"
  sql_int :: "string \<Rightarrow> nat option"
  hash_password :: "string \<Rightarrow> string"
  check_password :: "string \<Rightarrow> string \<Rightarrow> bool"
  confirm_email_token :: "string \<Rightarrow> string option"
  OTP_EXP_MINUTES :: "int option"
  quantize :: "decimal \<Rightarrow> decimal"

definition max_age :: "env \<Rightarrow> int" where
  "max_age E = (case OTP_EXP_MINUTES E of None \<Rightarrow> 5 | Some m \<Rightarrow> m)"

section \<open>The tables of models.py\<close>

record user =
  u_id :: nat
  u_email :: string
  u_password_hash :: string
  u_email_verified :: bool
  u_created_at :: datetime

record otp_code =
  o_id :: nat
  o_user_id :: nat
  o_code :: string
  o_created_at :: datetime
  o_used :: bool

record account =
  a_id :: nat
  a_user_id :: nat
  a_bank_type :: string
  a_name :: string
  a_balance :: decimal

record transaction =
  t_id :: nat
  t_account_id :: nat
  t_date :: datetime
  t_description :: string
  t_amount :: decimal
  t_type :: string
  t_counterparty_account_id :: "nat option"
  t_counterparty_email :: "string option"

record db =
  users :: "user list"
  otp_codes :: "otp_code list"
  accounts :: "account list"
  transactions :: "transaction list"

definition empty_db :: db where
  "empty_db = \<lparr>users = [], otp_codes = [], accounts = [], transactions = []\<rparr>"

text \<open>An integer primary key: the new row gets the successor of the largest key in the
  table. Rows are never deleted, so the key is fresh.\<close>

definition next_id :: "nat list \<Rightarrow> nat" where
  "next_id ids = Suc (fold max ids 0)"

text \<open>\<^verbatim>\<open>query.filter_by(...).first()\<close> without an ordering returns the first matching row
  in table order.\<close>

definition user_by_id :: "db \<Rightarrow> nat \<Rightarrow> user option" where
  "user_by_id d i = find (\<lambda>u. u_id u = i) (users d)"

definition user_by_email :: "db \<Rightarrow> string \<Rightarrow> user option" where
  "user_by_email d e = find (\<lambda>u. u_email u = e) (users d)"

definition account_by_id_user :: "env \<Rightarrow> db \<Rightarrow> string option \<Rightarrow> nat \<Rightarrow> account option" where
  "account_by_id_user E d raw_id uid =
     (case raw_id of
        None \<Rightarrow> None
      | Some s \<Rightarrow>
          (case sql_int E s of
             None \<Rightarrow> None
           | Some i \<Rightarrow> find (\<lambda>a. a_id a = i \<and> a_user_id a = uid) (accounts d)))"

definition first_account_of_user :: "db \<Rightarrow> nat \<Rightarrow> account option" where
  "first_account_of_user d uid = find (\<lambda>a. a_user_id a = uid) (accounts d)"

definition otp_by_id_user :: "db \<Rightarrow> nat \<Rightarrow> nat \<Rightarrow> otp_code option" where
  "otp_by_id_user d i uid = find (\<lambda>c. o_id c = i \<and> o_user_id c = uid) (otp_codes d)"

text \<open>Attribute writes on a loaded row stay in the unit of work until the commit, and
  two variables holding the same row see each other's writes. \<open>sub_balance\<close> and
  \<open>add_balance\<close> are the writes \<^verbatim>\<open>acc.balance -= amount\<close> and \<^verbatim>\<open>acc.balance += amount\<close> on
  the loaded accounts; \<open>flush_balances\<close> is the commit, where each balance that was
  written passes through its \<^verbatim>\<open>Numeric(14, 2)\<close> column.\<close>

definition sub_balance :: "account list \<Rightarrow> nat \<Rightarrow> decimal \<Rightarrow> account list" where
  "sub_balance loaded i amount =
     map (\<lambda>a. if a_id a = i then a\<lparr>a_balance := a_balance a - amount\<rparr> else a) loaded"

definition add_balance :: "account list \<Rightarrow> nat \<Rightarrow> decimal \<Rightarrow> account list" where
  "add_balance loaded i amount =
     map (\<lambda>a. if a_id a = i then a\<lparr>a_balance := a_balance a + amount\<rparr> else a) loaded"

definition flush_balances :: "env \<Rightarrow> nat list \<Rightarrow> account list \<Rightarrow> account list" where
  "flush_balances E written loaded =
     map (\<lambda>a. if a_id a \<in> set written then a\<lparr>a_balance := quantize E (a_balance a)\<rparr> else a)
       loaded"

definition set_otp_used :: "db \<Rightarrow> nat \<Rightarrow> db" where
  "set_otp_used d i =
     d\<lparr>otp_codes := map (\<lambda>c. if o_id c = i then c\<lparr>o_used := True\<rparr> else c) (otp_codes d)\<rparr>"

definition set_email_verified :: "db \<Rightarrow> nat \<Rightarrow> db" where
  "set_email_verified d i =
     d\<lparr>users := map (\<lambda>u. if u_id u = i then u\<lparr>u_email_verified := True\<rparr> else u) (users d)\<rparr>"

definition new_otp :: "db \<Rightarrow> nat \<Rightarrow> string \<Rightarrow> datetime \<Rightarrow> otp_code" where
  "new_otp d uid code now =
     \<lparr>o_id = next_id (map o_id (otp_codes d)), o_user_id = uid, o_code = code,
      o_created_at = now, o_used = False\<rparr>"

definition add_otp :: "db \<Rightarrow> otp_code \<Rightarrow> db" where
  "add_otp d otp = d\<lparr>otp_codes := otp_codes d @ [otp]\<rparr>"


section \<open>Session, responses and the outcome of a request\<close>

text \<open>The keys of the Flask session that the handlers use. Of the pending-operation
  dictionary the model keeps \<^verbatim>\<open>name\<close>, \<^verbatim>\<open>payload\<close> and \<^verbatim>\<open>created_at\<close>; \<^verbatim>\<open>title\<close> and
  \<^verbatim>\<open>detail\<close> are display text that no handler branches on.\<close>

record pending_op =
  op_name :: string
  op_payload :: payload
  op_created_at :: datetime

record session =
  s_user_id :: "nat option"
  s_pending_otp_user_id :: "nat option"
  s_pending_operation :: "pending_op option"
  s_pending_operation_otp_id :: "nat option"

definition empty_session :: session where
  "empty_session = \<lparr>s_user_id = None, s_pending_otp_user_id = None,
     s_pending_operation = None, s_pending_operation_otp_id = None\<rparr>"

text \<open>\<^verbatim>\<open>not x\<close> for an optional integer: \<^verbatim>\<open>None\<close> and 0 are falsy.\<close>

definition falsy_id :: "nat option \<Rightarrow> bool" where
  "falsy_id x = (case x of None \<Rightarrow> True | Some i \<Rightarrow> i = 0)"

text \<open>One constructor for each message that the handlers flash:
  \<^item> \<open>Login_required\<close>: "Debes iniciar sesion y completar el MFA."
  \<^item> \<open>Invalid_bank_type\<close>: "Tipo de banco no valido."
  \<^item> \<open>Alias_required\<close>: "El nombre o alias de la cuenta es obligatorio."
  \<^item> \<open>Invalid_initial_balance\<close>: "El saldo inicial no es valido."
  \<^item> \<open>Account_created\<close>: "Cuenta creada correctamente."
  \<^item> \<open>Same_account\<close>: "Debes seleccionar cuentas distintas para transferir."
  \<^item> \<open>Invalid_amount\<close>: "El monto de la transferencia no es valido."
  \<^item> \<open>Accounts_not_found\<close>: "No se encontraron las cuentas seleccionadas."
  \<^item> \<open>Insufficient_funds\<close>: "Saldo insuficiente en la cuenta de origen."
  \<^item> \<open>Transfer_internal_done\<close>: "Transferencia interna realizada correctamente."
  \<^item> \<open>Recipient_email_required\<close>: "Debes indicar el correo del destinatario."
  \<^item> \<open>Source_account_not_found\<close>: "La cuenta de origen no existe o no te pertenece."
  \<^item> \<open>Recipient_not_found\<close>: "No se encontro un usuario con ese correo."
  \<^item> \<open>Recipient_has_no_account\<close>: "El usuario destino no tiene cuentas registradas."
  \<^item> \<open>Transfer_external_done\<close>: "Transferencia enviada correctamente al usuario destino."
  \<^item> \<open>No_pending_operation\<close>: "No hay ninguna operacion pendiente por confirmar."
  \<^item> \<open>Code_required\<close>: "Debes ingresar el codigo OTP."
  \<^item> \<open>Otp_used_or_not_valid\<close>: "El codigo OTP ya fue utilizado o no es valido."
  \<^item> \<open>Otp_invalid\<close>: "Codigo OTP invalido."
  \<^item> \<open>Otp_expired_resend\<close>: "El codigo OTP ha expirado. Reenvialo para continuar."
  \<^item> \<open>Unknown_operation\<close>: "Operacion pendiente desconocida. Vuelve a intentarlo."
  \<^item> \<open>Operation_cancelled\<close>: "Operacion cancelada."
  \<^item> \<open>No_pending_for_resend\<close>: "No hay ninguna operacion pendiente para reenviar OTP."
  \<^item> \<open>Otp_resent\<close>: "Te reenviamos un nuevo codigo OTP a tu correo."
  \<^item> \<open>Otp_sent_create_account\<close>, \<open>Otp_sent_transfer_internal\<close>, \<open>Otp_sent_transfer_external\<close>:
    "Te enviamos un codigo OTP para confirmar ..."
  \<^item> \<open>Credentials_required\<close>: "Correo y contrasena son obligatorios."
  \<^item> \<open>Email_taken\<close>: "Este correo ya esta registrado."
  \<^item> \<open>Bad_verification_link\<close>: "El enlace de verificacion es invalido o ha expirado."
  \<^item> \<open>Bad_credentials\<close>: "Credenciales invalidas."
  \<^item> \<open>Email_not_verified\<close>: "Debes verificar tu correo antes de iniciar sesion."
  \<^item> \<open>Otp_sent_login\<close>: "Te enviamos un codigo OTP a tu correo."
  \<^item> \<open>Session_closed\<close>: "Sesion cerrada correctamente."
  \<^item> \<open>Login_first\<close>: "Inicia sesion primero."
  \<^item> \<open>Otp_expired\<close>: "El codigo OTP ha expirado."
  \<^item> \<open>Mfa_completed\<close>: "Autenticacion MFA completada."\<close>

datatype flash =
    Login_required | Invalid_bank_type | Alias_required | Invalid_initial_balance
  | Account_created | Same_account | Invalid_amount | Accounts_not_found
  | Insufficient_funds | Transfer_internal_done | Recipient_email_required
  | Source_account_not_found | Recipient_not_found | Recipient_has_no_account
  | Transfer_external_done | No_pending_operation | Code_required
  | Otp_used_or_not_valid | Otp_invalid | Otp_expired_resend | Unknown_operation
  | Operation_cancelled | No_pending_for_resend | Otp_resent
  | Otp_sent_create_account | Otp_sent_transfer_internal | Otp_sent_transfer_external
  | Credentials_required | Email_taken | Bad_verification_link | Bad_credentials
  | Email_not_verified | Otp_sent_login | Session_closed | Login_first | Otp_expired
  | Mfa_completed

datatype endpoint =
    Auth_login | Auth_register | Finance_dashboard | Finance_gestion
  | Finance_confirmar_operacion | Mfa_verify_otp | Landing

datatype response =
    Redirect endpoint "flash option"
  | Render string
  | Abort404

datatype http_method = GET | POST

text \<open>What a request leaves behind: the store as of each \<^verbatim>\<open>db.session.commit()\<close>, in
  order, the session, and the response. A request that commits nothing leaves the store
  as it was.\<close>

record result =
  commits :: "db list"
  sess :: session
  resp :: response

definition reply :: "session \<Rightarrow> response \<Rightarrow> result" where
  "reply s r = \<lparr>commits = [], sess = s, resp = r\<rparr>"

definition final_db :: "db \<Rightarrow> result \<Rightarrow> db" where
  "final_db d r = (if commits r = [] then d else last (commits r))"

definition session_user :: "db \<Rightarrow> session \<Rightarrow> user option" where
  "session_user d s = (case s_user_id s of None \<Rightarrow> None | Some i \<Rightarrow> user_by_id d i)"

section \<open>finance/routes.py\<close>

definition BANK_TYPES :: "string list" where
  "BANK_TYPES = [''NEQUI'', ''BANCOLOMBIA'', ''DAVIPLATA'', ''NU'', ''OTRO'']"

definition login_required ::
  "(db \<Rightarrow> session \<Rightarrow> result) \<Rightarrow> db \<Rightarrow> session \<Rightarrow> result" where
  "login_required view d s =
     (if falsy_id (s_user_id s) then reply s (Redirect Auth_login (Some Login_required))
      else view d s)"

definition clear_pending_operation :: "session \<Rightarrow> session" where
  "clear_pending_operation s =
     s\<lparr>s_pending_operation := None, s_pending_operation_otp_id := None\<rparr>"

text \<open>\<^verbatim>\<open>_start_operation_otp\<close>: the challenge is committed, then the session holds the
  operation and the id of that challenge.\<close>

definition start_operation_otp ::
  "datetime \<Rightarrow> nat \<Rightarrow> db \<Rightarrow> session \<Rightarrow> user \<Rightarrow> string \<Rightarrow> payload \<Rightarrow> db \<times> session" where
  "start_operation_otp now r d s usr name pl =
     (let code = generate_otp_code r;
          otp = new_otp d (u_id usr) code now;
          d1 = add_otp d otp;
          s1 = s\<lparr>s_pending_operation :=
                    Some \<lparr>op_name = name, op_payload = pl, op_created_at = now\<rparr>,
                 s_pending_operation_otp_id := Some (o_id otp)\<rparr>
      in (d1, s1))"

definition new_account :: "db \<Rightarrow> nat \<Rightarrow> string \<Rightarrow> string \<Rightarrow> decimal \<Rightarrow> account" where
  "new_account d uid bank_type name balance =
     \<lparr>a_id = next_id (map a_id (accounts d)), a_user_id = uid, a_bank_type = bank_type,
      a_name = name, a_balance = balance\<rparr>"

definition add_account :: "db \<Rightarrow> account \<Rightarrow> db" where
  "add_account d a = d\<lparr>accounts := accounts d @ [a]\<rparr>"

text \<open>\<^verbatim>\<open>db.session.add_all(txs)\<close>: each row gets the next primary key, in order.\<close>

fun add_transactions :: "db \<Rightarrow> transaction list \<Rightarrow> db" where
  "add_transactions d [] = d"
| "add_transactions d (t # ts) =
     add_transactions
       (d\<lparr>transactions := transactions d @ [t\<lparr>t_id := next_id (map t_id (transactions d))\<rparr>]\<rparr>) ts"

text \<open>The account and its opening transaction are committed with what the
  \<^verbatim>\<open>Numeric(14, 2)\<close> columns hold for the parsed balance; the test
  \<^verbatim>\<open>initial_balance != 0\<close> is on the parsed value.\<close>

definition execute_create_account ::
  "env \<Rightarrow> datetime \<Rightarrow> db \<Rightarrow> user \<Rightarrow> string option \<Rightarrow> string \<Rightarrow> string option
     \<Rightarrow> db list \<times> response" where
  "execute_create_account E now d usr bank_type name initial_balance_raw =
     (case bank_type of
        None \<Rightarrow> ([], Redirect Finance_dashboard (Some Invalid_bank_type))
      | Some bt \<Rightarrow>
          if bt \<notin> set BANK_TYPES then ([], Redirect Finance_dashboard (Some Invalid_bank_type))
          else if name = [] then ([], Redirect Finance_dashboard (Some Alias_required))
          else
            (case Decimal E (or_str (Some (strip (or_str initial_balance_raw ''0''))) ''0'') of
               None \<Rightarrow> ([], Redirect Finance_dashboard (Some Invalid_initial_balance))
             | Some initial_balance \<Rightarrow>
                 (let acc = new_account d (u_id usr) bt name (quantize E initial_balance);
                      d1 = add_account d acc;
                      d2 = (if initial_balance \<noteq> 0
                            then add_transactions d1
                                   [\<lparr>t_id = 0, t_account_id = a_id acc, t_date = now,
                                     t_description = ''Saldo inicial'',
                                     t_amount = quantize E initial_balance,
                                     t_type = ''INGRESO'',
                                     t_counterparty_account_id = None,
                                     t_counterparty_email = None\<rparr>]
                            else d1)
                  in ([d2], Redirect Finance_dashboard (Some Account_created)))))"

text \<open>The amount of a transfer: \<^verbatim>\<open>Decimal((amount_raw or "").strip())\<close>, and a value
  that is not positive raises as a malformed string does.\<close>

definition transfer_amount :: "env \<Rightarrow> string option \<Rightarrow> decimal option" where
  "transfer_amount E amount_raw =
     (case Decimal E (strip (or_str amount_raw [])) of
        None \<Rightarrow> None
      | Some amount \<Rightarrow> if amount \<le> 0 then None else Some amount)"

text \<open>The writes and the commit that end both transfers: the two balances are written on
  the loaded rows, the two transactions are added, and the commit stores the balances and
  the amounts through their \<^verbatim>\<open>Numeric(14, 2)\<close> columns.\<close>

definition apply_transfer ::
  "env \<Rightarrow> datetime \<Rightarrow> db \<Rightarrow> account \<Rightarrow> account \<Rightarrow> decimal \<Rightarrow> string
     \<Rightarrow> string option \<Rightarrow> string option \<Rightarrow> db" where
  "apply_transfer E now d from_acc to_acc amount description out_email in_email =
     (let loaded1 = sub_balance (accounts d) (a_id from_acc) amount;
          loaded2 = add_balance loaded1 (a_id to_acc) amount;
          tx_out = \<lparr>t_id = 0, t_account_id = a_id from_acc, t_date = now,
                    t_description = description, t_amount = quantize E (- amount),
                    t_type = ''TRANSFER_OUT'',
                    t_counterparty_account_id = Some (a_id to_acc),
                    t_counterparty_email = out_email\<rparr>;
          tx_in = \<lparr>t_id = 0, t_account_id = a_id to_acc, t_date = now,
                   t_description = description, t_amount = quantize E amount,
                   t_type = ''TRANSFER_IN'',
                   t_counterparty_account_id = Some (a_id from_acc),
                   t_counterparty_email = in_email\<rparr>
      in add_transactions
           (d\<lparr>accounts := flush_balances E [a_id from_acc, a_id to_acc] loaded2\<rparr>)
           [tx_out, tx_in])"

definition execute_transfer_internal ::
  "env \<Rightarrow> datetime \<Rightarrow> db \<Rightarrow> user \<Rightarrow> string option \<Rightarrow> string option \<Rightarrow> string option
     \<Rightarrow> string \<Rightarrow> db list \<times> response" where
  "execute_transfer_internal E now d usr from_id to_id amount_raw description =
     (if from_id = to_id then ([], Redirect Finance_dashboard (Some Same_account))
      else
        (case transfer_amount E amount_raw of
           None \<Rightarrow> ([], Redirect Finance_dashboard (Some Invalid_amount))
         | Some amount \<Rightarrow>
             (case account_by_id_user E d from_id (u_id usr) of
                None \<Rightarrow> ([], Redirect Finance_dashboard (Some Accounts_not_found))
              | Some from_acc \<Rightarrow>
                  (case account_by_id_user E d to_id (u_id usr) of
                     None \<Rightarrow> ([], Redirect Finance_dashboard (Some Accounts_not_found))
                   | Some to_acc \<Rightarrow>
                       if a_balance from_acc < amount
                       then ([], Redirect Finance_dashboard (Some Insufficient_funds))
                       else ([apply_transfer E now d from_acc to_acc amount description
                                None None],
                             Redirect Finance_dashboard (Some Transfer_internal_done))))))"

definition execute_transfer_external ::
  "env \<Rightarrow> datetime \<Rightarrow> db \<Rightarrow> user \<Rightarrow> string option \<Rightarrow> string \<Rightarrow> string option
     \<Rightarrow> string \<Rightarrow> db list \<times> response" where
  "execute_transfer_external E now d usr from_id recipient_email amount_raw description =
     (if recipient_email = []
      then ([], Redirect Finance_dashboard (Some Recipient_email_required))
      else
        (case transfer_amount E amount_raw of
           None \<Rightarrow> ([], Redirect Finance_dashboard (Some Invalid_amount))
         | Some amount \<Rightarrow>
             (case account_by_id_user E d from_id (u_id usr) of
                None \<Rightarrow> ([], Redirect Finance_dashboard (Some Source_account_not_found))
              | Some from_acc \<Rightarrow>
                  if a_balance from_acc < amount
                  then ([], Redirect Finance_dashboard (Some Insufficient_funds))
                  else
                    (case user_by_email d recipient_email of
                       None \<Rightarrow> ([], Redirect Finance_dashboard (Some Recipient_not_found))
                     | Some recipient \<Rightarrow>
                         (case first_account_of_user d (u_id recipient) of
                            None \<Rightarrow>
                              ([], Redirect Finance_dashboard (Some Recipient_has_no_account))
                          | Some to_acc \<Rightarrow>
                              ([apply_transfer E now d from_acc to_acc amount description
                                  (Some (u_email recipient)) (Some (u_email usr))],
                               Redirect Finance_dashboard
                                 (Some Transfer_external_done)))))))"


text \<open>\<^verbatim>\<open>confirmar_operacion\<close>. The challenge is looked up by the id held in the session.
  After the three checks the \<^verbatim>\<open>used\<close> flag is committed, the session is cleared, and
  only then the operation runs, with a commit of its own.\<close>

definition otp_is_expired :: "env \<Rightarrow> datetime \<Rightarrow> otp_code \<Rightarrow> bool" where
  "otp_is_expired E now otp = (o_created_at otp < now - timedelta_minutes (max_age E))"

definition run_pending_operation ::
  "env \<Rightarrow> datetime \<Rightarrow> db \<Rightarrow> user \<Rightarrow> pending_op \<Rightarrow> db list \<times> response" where
  "run_pending_operation E now d usr op =
     (let pl = op_payload op in
      if op_name op = ''create_account'' then
        execute_create_account E now d usr
          (payload_get_default pl ''bank_type'' ''OTRO'')
          (strip (or_str (payload_get pl ''name'') []))
          (payload_get_default pl ''initial_balance'' ''0'')
      else if op_name op = ''transfer_internal'' then
        execute_transfer_internal E now d usr
          (payload_get pl ''from_account_id'')
          (payload_get pl ''to_account_id'')
          (payload_get_default pl ''amount'' [])
          (or_str (Some (strip (or_str (payload_get pl ''description'') [])))
             ''Transferencia interna'')
      else if op_name op = ''transfer_external'' then
        execute_transfer_external E now d usr
          (payload_get pl ''from_account_id'')
          (strip (lower (or_str (payload_get pl ''recipient_email'') [])))
          (payload_get_default pl ''amount'' [])
          (or_str (Some (strip (or_str (payload_get pl ''description'') [])))
             ''Transferencia a otro usuario'')
      else ([], Redirect Finance_gestion (Some Unknown_operation)))"

definition confirmar_operacion_view ::
  "env \<Rightarrow> datetime \<Rightarrow> http_method \<Rightarrow> form \<Rightarrow> db \<Rightarrow> session \<Rightarrow> result" where
  "confirmar_operacion_view E now meth f d s =
     (case s_pending_operation s of
        None \<Rightarrow> reply s (Redirect Finance_gestion (Some No_pending_operation))
      | Some op \<Rightarrow>
          (case s_pending_operation_otp_id s of
             None \<Rightarrow> reply s (Redirect Finance_gestion (Some No_pending_operation))
           | Some otp_id \<Rightarrow>
               if otp_id = 0
               then reply s (Redirect Finance_gestion (Some No_pending_operation))
               else
                 (case session_user d s of
                    None \<Rightarrow> reply s Abort404
                  | Some usr \<Rightarrow>
                      if meth = POST then
                        (let code = strip (form_get_default f ''code'' []) in
                         if code = []
                         then reply s
                                (Redirect Finance_confirmar_operacion (Some Code_required))
                         else
                           (case otp_by_id_user d otp_id (u_id usr) of
                              None \<Rightarrow>
                                reply (clear_pending_operation s)
                                  (Redirect Finance_gestion (Some Otp_used_or_not_valid))
                            | Some otp \<Rightarrow>
                                if o_used otp then
                                  reply (clear_pending_operation s)
                                    (Redirect Finance_gestion (Some Otp_used_or_not_valid))
                                else if o_code otp \<noteq> code then
                                  reply s
                                    (Redirect Finance_confirmar_operacion (Some Otp_invalid))
                                else if otp_is_expired E now otp then
                                  reply s
                                    (Redirect Finance_confirmar_operacion
                                       (Some Otp_expired_resend))
                                else
                                  (let d1 = set_otp_used d (o_id otp);
                                       s1 = clear_pending_operation s;
                                       (cs, rsp) = run_pending_operation E now d1 usr op
                                   in \<lparr>commits = d1 # cs, sess = s1, resp = rsp\<rparr>)))
                      else reply s (Render ''finance/confirmar_operacion.html''))))"

definition confirmar_operacion ::
  "env \<Rightarrow> datetime \<Rightarrow> http_method \<Rightarrow> form \<Rightarrow> db \<Rightarrow> session \<Rightarrow> result" where
  "confirmar_operacion E now meth f = login_required (confirmar_operacion_view E now meth f)"

definition cancelar_operacion :: "db \<Rightarrow> session \<Rightarrow> result" where
  "cancelar_operacion =
     login_required (\<lambda>d s. reply (clear_pending_operation s)
                               (Redirect Finance_gestion (Some Operation_cancelled)))"

definition reenviar_otp_operacion_view :: "datetime \<Rightarrow> nat \<Rightarrow> db \<Rightarrow> session \<Rightarrow> result" where
  "reenviar_otp_operacion_view now r d s =
     (case s_pending_operation s of
        None \<Rightarrow> reply s (Redirect Finance_gestion (Some No_pending_for_resend))
      | Some op \<Rightarrow>
          (case session_user d s of
             None \<Rightarrow> reply s Abort404
           | Some usr \<Rightarrow>
               (let code = generate_otp_code r;
                    otp = new_otp d (u_id usr) code now;
                    d1 = add_otp d otp
                in \<lparr>commits = [d1],
                    sess = s\<lparr>s_pending_operation_otp_id := Some (o_id otp)\<rparr>,
                    resp = Redirect Finance_confirmar_operacion (Some Otp_resent)\<rparr>)))"

definition reenviar_otp_operacion :: "datetime \<Rightarrow> nat \<Rightarrow> db \<Rightarrow> session \<Rightarrow> result" where
  "reenviar_otp_operacion now r = login_required (reenviar_otp_operacion_view now r)"

text \<open>The staging handlers. Each repeats the checks of its operation and, when they pass,
  starts the confirmation; none of them writes an account or a transaction.\<close>

definition create_account_view :: "env \<Rightarrow> datetime \<Rightarrow> nat \<Rightarrow> form \<Rightarrow> db \<Rightarrow> session \<Rightarrow> result" where
  "create_account_view E now r f d s =
     (case session_user d s of
        None \<Rightarrow> reply s Abort404
      | Some usr \<Rightarrow>
          (let bank_type = form_get_default f ''bank_type'' ''OTRO'';
               name = strip (form_get_default f ''name'' []);
               initial_balance_raw =
                 or_str (Some (strip (form_get_default f ''initial_balance'' ''0''))) ''0''
           in if bank_type \<notin> set BANK_TYPES
              then reply s (Redirect Finance_dashboard (Some Invalid_bank_type))
              else if name = []
              then reply s (Redirect Finance_dashboard (Some Alias_required))
              else
                (case Decimal E initial_balance_raw of
                   None \<Rightarrow> reply s (Redirect Finance_dashboard (Some Invalid_initial_balance))
                 | Some initial_balance \<Rightarrow>
                     (let (d1, s1) =
                            start_operation_otp now r d s usr ''create_account''
                              [(''bank_type'', Some bank_type), (''name'', Some name),
                               (''initial_balance'', Some initial_balance_raw)]
                      in \<lparr>commits = [d1], sess = s1,
                          resp = Redirect Finance_confirmar_operacion
                                   (Some Otp_sent_create_account)\<rparr>))))"

definition create_account :: "env \<Rightarrow> datetime \<Rightarrow> nat \<Rightarrow> form \<Rightarrow> db \<Rightarrow> session \<Rightarrow> result" where
  "create_account E now r f = login_required (create_account_view E now r f)"

definition transfer_internal_view ::
  "env \<Rightarrow> datetime \<Rightarrow> nat \<Rightarrow> form \<Rightarrow> db \<Rightarrow> session \<Rightarrow> result" where
  "transfer_internal_view E now r f d s =
     (case session_user d s of
        None \<Rightarrow> reply s Abort404
      | Some usr \<Rightarrow>
          (let from_id = form_get f ''from_account_id'';
               to_id = form_get f ''to_account_id'';
               amount_raw = strip (form_get_default f ''amount'' []);
               description =
                 or_str (Some (strip (form_get_default f ''description'' [])))
                   ''Transferencia interna''
           in if from_id = to_id
              then reply s (Redirect Finance_dashboard (Some Same_account))
              else
                (case Decimal E amount_raw of
                   None \<Rightarrow> reply s (Redirect Finance_dashboard (Some Invalid_amount))
                 | Some amount \<Rightarrow>
                     if amount \<le> 0
                     then reply s (Redirect Finance_dashboard (Some Invalid_amount))
                     else
                       (case account_by_id_user E d from_id (u_id usr) of
                          None \<Rightarrow> reply s (Redirect Finance_dashboard (Some Accounts_not_found))
                        | Some from_acc \<Rightarrow>
                            (case account_by_id_user E d to_id (u_id usr) of
                               None \<Rightarrow>
                                 reply s (Redirect Finance_dashboard (Some Accounts_not_found))
                             | Some to_acc \<Rightarrow>
                                 if a_balance from_acc < amount
                                 then reply s
                                        (Redirect Finance_dashboard (Some Insufficient_funds))
                                 else
                                   (let (d1, s1) =
                                          start_operation_otp now r d s usr ''transfer_internal''
                                            [(''from_account_id'', from_id),
                                             (''to_account_id'', to_id),
                                             (''amount'', Some amount_raw),
                                             (''description'', Some description)]
                                    in \<lparr>commits = [d1], sess = s1,
                                        resp = Redirect Finance_confirmar_operacion
                                                 (Some Otp_sent_transfer_internal)\<rparr>))))))"

definition transfer_internal ::
  "env \<Rightarrow> datetime \<Rightarrow> nat \<Rightarrow> form \<Rightarrow> db \<Rightarrow> session \<Rightarrow> result" where
  "transfer_internal E now r f = login_required (transfer_internal_view E now r f)"

definition transfer_external_view ::
  "env \<Rightarrow> datetime \<Rightarrow> nat \<Rightarrow> form \<Rightarrow> db \<Rightarrow> session \<Rightarrow> result" where
  "transfer_external_view E now r f d s =
     (case session_user d s of
        None \<Rightarrow> reply s Abort404
      | Some sender \<Rightarrow>
          (let from_id = form_get f ''from_account_id'';
               recipient_email = strip (lower (form_get_default f ''recipient_email'' []));
               amount_raw = strip (form_get_default f ''amount'' []);
               description =
                 or_str (Some (strip (form_get_default f ''description'' [])))
                   ''Transferencia a otro usuario''
           in if recipient_email = []
              then reply s (Redirect Finance_dashboard (Some Recipient_email_required))
              else
                (case Decimal E amount_raw of
                   None \<Rightarrow> reply s (Redirect Finance_dashboard (Some Invalid_amount))
                 | Some amount \<Rightarrow>
                     if amount \<le> 0
                     then reply s (Redirect Finance_dashboard (Some Invalid_amount))
                     else
                       (case account_by_id_user E d from_id (u_id sender) of
                          None \<Rightarrow>
                            reply s (Redirect Finance_dashboard (Some Source_account_not_found))
                        | Some from_acc \<Rightarrow>
                            if a_balance from_acc < amount
                            then reply s (Redirect Finance_dashboard (Some Insufficient_funds))
                            else
                              (case user_by_email d recipient_email of
                                 None \<Rightarrow>
                                   reply s (Redirect Finance_dashboard (Some Recipient_not_found))
                               | Some recipient \<Rightarrow>
                                   (case first_account_of_user d (u_id recipient) of
                                      None \<Rightarrow>
                                        reply s (Redirect Finance_dashboard
                                                   (Some Recipient_has_no_account))
                                    | Some to_acc \<Rightarrow>
                                        (let (d1, s1) =
                                               start_operation_otp now r d s sender
                                                 ''transfer_external''
                                                 [(''from_account_id'', from_id),
                                                  (''recipient_email'', Some recipient_email),
                                                  (''amount'', Some amount_raw),
                                                  (''description'', Some description)]
                                         in \<lparr>commits = [d1], sess = s1,
                                             resp = Redirect Finance_confirmar_operacion
                                                      (Some Otp_sent_transfer_external)\<rparr>)))))))"

definition transfer_external ::
  "env \<Rightarrow> datetime \<Rightarrow> nat \<Rightarrow> form \<Rightarrow> db \<Rightarrow> session \<Rightarrow> result" where
  "transfer_external E now r f = login_required (transfer_external_view E now r f)"


section \<open>auth/routes.py and mfa/routes.py\<close>

text \<open>\<^verbatim>\<open>register\<close> commits three times: the user, the example account, and the deposit
  that opens its history. Balance and amount are the integer 1500000, which a
  \<^verbatim>\<open>Numeric(14, 2)\<close> column holds as it is.\<close>

definition new_user :: "env \<Rightarrow> db \<Rightarrow> string \<Rightarrow> string \<Rightarrow> datetime \<Rightarrow> user" where
  "new_user E d email password now =
     \<lparr>u_id = next_id (map u_id (users d)), u_email = email,
      u_password_hash = hash_password E password, u_email_verified = False,
      u_created_at = now\<rparr>"

definition register_commits :: "env \<Rightarrow> datetime \<Rightarrow> db \<Rightarrow> string \<Rightarrow> string \<Rightarrow> db list" where
  "register_commits E now d email password =
     (let usr = new_user E d email password now;
          d1 = d\<lparr>users := users d @ [usr]\<rparr>;
          acc = new_account d1 (u_id usr) ''OTRO'' ''Cuenta Ahorros Principal'' 1500000;
          d2 = add_account d1 acc;
          d3 = add_transactions d2
                 [\<lparr>t_id = 0, t_account_id = a_id acc, t_date = now,
                   t_description = ''Dep'' @ [CHR 0xF3] @ ''sito inicial'',
                   t_amount = 1500000, t_type = ''ingreso'',
                   t_counterparty_account_id = None, t_counterparty_email = None\<rparr>]
      in [d1, d2, d3])"

definition register :: "env \<Rightarrow> datetime \<Rightarrow> http_method \<Rightarrow> form \<Rightarrow> db \<Rightarrow> session \<Rightarrow> result" where
  "register E now meth f d s =
     (if \<not> falsy_id (s_user_id s) then reply s (Redirect Finance_dashboard None)
      else if meth = POST then
        (let email = strip (lower (form_get_default f ''email'' []));
             password = form_get_default f ''password'' []
         in if email = [] \<or> password = []
            then reply s (Redirect Auth_register (Some Credentials_required))
            else
              (case user_by_email d email of
                 Some existing \<Rightarrow> reply s (Redirect Auth_register (Some Email_taken))
               | None \<Rightarrow>
                   \<lparr>commits = register_commits E now d email password, sess = s,
                    resp = Render ''auth/email_verification_sent.html''\<rparr>))
      else reply s (Render ''auth/register.html''))"

definition verify_email :: "env \<Rightarrow> string \<Rightarrow> db \<Rightarrow> session \<Rightarrow> result" where
  "verify_email E token d s =
     (case confirm_email_token E token of
        None \<Rightarrow> reply s (Redirect Auth_login (Some Bad_verification_link))
      | Some email \<Rightarrow>
          (case user_by_email d email of
             None \<Rightarrow> reply s Abort404
           | Some usr \<Rightarrow>
               if \<not> u_email_verified usr
               then \<lparr>commits = [set_email_verified d (u_id usr)], sess = s,
                     resp = Render ''auth/email_verified_ok.html''\<rparr>
               else reply s (Render ''auth/email_verified_ok.html'')))"

definition login ::
  "env \<Rightarrow> datetime \<Rightarrow> nat \<Rightarrow> http_method \<Rightarrow> form \<Rightarrow> db \<Rightarrow> session \<Rightarrow> result" where
  "login E now r meth f d s =
     (if \<not> falsy_id (s_user_id s) then reply s (Redirect Finance_dashboard None)
      else if meth = POST then
        (let email = strip (lower (form_get_default f ''email'' []));
             password = form_get_default f ''password'' []
         in case user_by_email d email of
              None \<Rightarrow> reply s (Redirect Auth_login (Some Bad_credentials))
            | Some usr \<Rightarrow>
                if \<not> check_password E password (u_password_hash usr)
                then reply s (Redirect Auth_login (Some Bad_credentials))
                else if \<not> u_email_verified usr
                then reply s (Redirect Auth_login (Some Email_not_verified))
                else
                  (let code = generate_otp_code r;
                       otp = new_otp d (u_id usr) code now
                   in \<lparr>commits = [add_otp d otp],
                       sess = s\<lparr>s_pending_otp_user_id := Some (u_id usr)\<rparr>,
                       resp = Redirect Mfa_verify_otp (Some Otp_sent_login)\<rparr>))
      else reply s (Render ''auth/login.html''))"

definition logout :: "db \<Rightarrow> session \<Rightarrow> result" where
  "logout d s = reply empty_session (Redirect Landing (Some Session_closed))"

text \<open>\<^verbatim>\<open>order_by(OtpCode.created_at.desc()).first()\<close>: a row with the greatest creation
  time; among rows created at the same time the model takes the first in table order
  (the engine may take any).\<close>

fun latest_created :: "otp_code list \<Rightarrow> otp_code option" where
  "latest_created [] = None"
| "latest_created (x # xs) =
     (case latest_created xs of
        None \<Rightarrow> Some x
      | Some y \<Rightarrow> if o_created_at x < o_created_at y then Some y else Some x)"

definition unused_with_code :: "db \<Rightarrow> nat \<Rightarrow> string \<Rightarrow> otp_code list" where
  "unused_with_code d uid code =
     filter (\<lambda>c. o_user_id c = uid \<and> o_code c = code \<and> \<not> o_used c) (otp_codes d)"

definition verify_otp :: "env \<Rightarrow> datetime \<Rightarrow> http_method \<Rightarrow> form \<Rightarrow> db \<Rightarrow> session \<Rightarrow> result" where
  "verify_otp E now meth f d s =
     (case s_pending_otp_user_id s of
        None \<Rightarrow> reply s (Redirect Auth_login (Some Login_first))
      | Some user_id \<Rightarrow>
          if user_id = 0 then reply s (Redirect Auth_login (Some Login_first))
          else
            (case user_by_id d user_id of
               None \<Rightarrow> reply s Abort404
             | Some usr \<Rightarrow>
                 if meth = POST then
                   (let code = strip (form_get_default f ''code'' []) in
                    if code = [] then reply s (Redirect Mfa_verify_otp (Some Code_required))
                    else
                      (case latest_created (unused_with_code d (u_id usr) code) of
                         None \<Rightarrow> reply s (Redirect Mfa_verify_otp (Some Otp_invalid))
                       | Some otp \<Rightarrow>
                           if otp_is_expired E now otp
                           then reply s (Redirect Mfa_verify_otp (Some Otp_expired))
                           else
                             \<lparr>commits = [set_otp_used d (o_id otp)],
                              sess = s\<lparr>s_pending_otp_user_id := None,
                                       s_user_id := Some (u_id usr)\<rparr>,
                              resp = Redirect Finance_dashboard (Some Mfa_completed)\<rparr>))
                 else reply s (Render ''mfa/verify_otp.html'')))"

section \<open>The application: one request at a time\<close>

text \<open>The routes registered by \<^verbatim>\<open>create_app\<close> that can change the store or the session.
  The pages \<^verbatim>\<open>dashboard\<close>, \<^verbatim>\<open>gestion\<close>, \<^verbatim>\<open>movimientos\<close> and the landing page only read.\<close>

datatype request =
    Register http_method form
  | Verify_email string
  | Login nat http_method form
  | Logout
  | Verify_otp http_method form
  | Create_account nat form
  | Transfer_internal nat form
  | Transfer_external nat form
  | Confirmar_operacion http_method form
  | Cancelar_operacion
  | Reenviar_otp_operacion nat

fun handle :: "env \<Rightarrow> datetime \<Rightarrow> request \<Rightarrow> db \<Rightarrow> session \<Rightarrow> result" where
  "handle E now (Register m f) d s = register E now m f d s"
| "handle E now (Verify_email token) d s = verify_email E token d s"
| "handle E now (Login r m f) d s = login E now r m f d s"
| "handle E now Logout d s = logout d s"
| "handle E now (Verify_otp m f) d s = verify_otp E now m f d s"
| "handle E now (Create_account r f) d s = create_account E now r f d s"
| "handle E now (Transfer_internal r f) d s = transfer_internal E now r f d s"
| "handle E now (Transfer_external r f) d s = transfer_external E now r f d s"
| "handle E now (Confirmar_operacion m f) d s = confirmar_operacion E now m f d s"
| "handle E now Cancelar_operacion d s = cancelar_operacion d s"
| "handle E now (Reenviar_otp_operacion r) d s = reenviar_otp_operacion now r d s"

text \<open>The stores that the application can reach from the empty one: each request runs
  to its end on the store left by the one before, under any session.\<close>

inductive reachable :: "env \<Rightarrow> db \<Rightarrow> bool" for E :: env where
  reachable_empty: "reachable E empty_db"
| reachable_step: "reachable E d \<Longrightarrow> reachable E (final_db d (handle E now req d s))"


section \<open>Notions used to state the properties\<close>

text \<open>The sum of the amounts of the transactions linked to an account.\<close>

definition ledger_sum :: "db \<Rightarrow> nat \<Rightarrow> decimal" where
  "ledger_sum d i = sum_list (map t_amount (filter (\<lambda>t. t_account_id t = i) (transactions d)))"

text \<open>The balance stored for an account id (0 when there is no such account).\<close>

definition balance_of :: "db \<Rightarrow> nat \<Rightarrow> decimal" where
  "balance_of d i = (case find (\<lambda>a. a_id a = i) (accounts d) of None \<Rightarrow> 0 | Some a \<Rightarrow> a_balance a)"

text \<open>What the store guarantees by its keys: account ids are unique, a transaction
  belongs to an account, and an account belongs to a user.\<close>

definition consistent :: "db \<Rightarrow> bool" where
  "consistent d \<longleftrightarrow>
     distinct (map a_id (accounts d)) \<and>
     (\<forall>t \<in> set (transactions d). t_account_id t \<in> set (map a_id (accounts d))) \<and>
     (\<forall>a \<in> set (accounts d). a_user_id a \<in> set (map u_id (users d)))"


text \<open>Amounts with at most two fraction digits: the multiples of 0.01. A
  \<^verbatim>\<open>Numeric(14, 2)\<close> column gives back only such values, and gives back such a value as it
  was written (the bound of fourteen digits is not modelled).\<close>

definition cents :: "decimal \<Rightarrow> bool" where
  "cents x \<longleftrightarrow> of_int \<lfloor>x * 100\<rfloor> = x * 100"

definition numeric_column :: "env \<Rightarrow> bool" where
  "numeric_column E \<longleftrightarrow> (\<forall>x. cents (quantize E x)) \<and> (\<forall>x. cents x \<longrightarrow> quantize E x = x)"

definition in_cents :: "db \<Rightarrow> bool" where
  "in_cents d \<longleftrightarrow>
     (\<forall>a \<in> set (accounts d). cents (a_balance a)) \<and>
     (\<forall>t \<in> set (transactions d). cents (t_amount t))"




text \<open>Two stores with the same accounts, the same transactions and the same user ids.\<close>

definition same_ledger :: "db \<Rightarrow> db \<Rightarrow> bool" where
  "same_ledger d d' \<longleftrightarrow>
     accounts d' = accounts d \<and> transactions d' = transactions d \<and>
     map u_id (users d') = map u_id (users d)"

text \<open>What a transfer of \<open>amount\<close> from account \<open>fid\<close> to account \<open>tid\<close> adds to account
  \<open>i\<close>.\<close>

definition moved :: "nat \<Rightarrow> nat \<Rightarrow> decimal \<Rightarrow> nat \<Rightarrow> decimal" where
  "moved fid tid amount i = (if i = tid then amount else 0) - (if i = fid then amount else 0)"

text \<open>The code of a confirmation request, and the user, the pending operation and the
  challenge bound to it that a logged-in session designates.\<close>

definition submitted_code :: "form \<Rightarrow> string" where
  "submitted_code f = strip (form_get_default f ''code'' [])"

definition bound_challenge :: "db \<Rightarrow> session \<Rightarrow> (user \<times> pending_op \<times> otp_code) option" where
  "bound_challenge d s =
     (if falsy_id (s_user_id s) then None
      else
        (case s_pending_operation s of
           None \<Rightarrow> None
         | Some op \<Rightarrow>
             (case s_pending_operation_otp_id s of
                None \<Rightarrow> None
              | Some i \<Rightarrow>
                  if i = 0 then None
                  else
                    (case session_user d s of
                       None \<Rightarrow> None
                     | Some usr \<Rightarrow>
                         (case otp_by_id_user d i (u_id usr) of
                            None \<Rightarrow> None
                          | Some otp \<Rightarrow> Some (usr, op, otp))))))"

text \<open>A response that reports a completed operation.\<close>

definition operation_done :: "response \<Rightarrow> bool" where
  "operation_done r \<longleftrightarrow>
     r = Redirect Finance_dashboard (Some Account_created) \<or>
     r = Redirect Finance_dashboard (Some Transfer_internal_done) \<or>
     r = Redirect Finance_dashboard (Some Transfer_external_done)"

text \<open>The challenge with the latest creation time among the unused challenges of a
  user.\<close>

definition latest_unused :: "db \<Rightarrow> nat \<Rightarrow> otp_code option" where
  "latest_unused d uid =
     latest_created (filter (\<lambda>c. o_user_id c = uid \<and> \<not> o_used c) (otp_codes d))"

section \<open>A concrete instance of the collaborators, for the examples\<close>

text \<open>Plain literals (\<^verbatim>\<open>12\<close>, \<^verbatim>\<open>-5\<close>, \<^verbatim>\<open>30.00\<close>), which \<^verbatim>\<open>decimal.Decimal\<close> and the
  storage engine read in the same way.\<close>

definition digit_value :: "char \<Rightarrow> nat option" where
  "digit_value c = map_of (zip ''0123456789'' [0, 1, 2, 3, 4, 5, 6, 7, 8, 9]) c"

fun digits_value :: "string \<Rightarrow> nat \<Rightarrow> nat option" where
  "digits_value [] acc = Some acc"
| "digits_value (c # cs) acc =
     (case digit_value c of None \<Rightarrow> None | Some v \<Rightarrow> digits_value cs (10 * acc + v))"

definition nat_literal :: "string \<Rightarrow> nat option" where
  "nat_literal s = (if s = [] then None else digits_value s 0)"

definition decimal_literal :: "string \<Rightarrow> decimal option" where
  "decimal_literal s =
     (let neg = (take 1 s = ''-'');
          body = (if take 1 s = ''-'' \<or> take 1 s = ''+'' then drop 1 s else s);
          ip = takeWhile (\<lambda>c. c \<noteq> CHR ''.'') body;
          fp = drop 1 (dropWhile (\<lambda>c. c \<noteq> CHR ''.'') body)
      in if ip = [] \<and> fp = [] then None
         else
           (case digits_value (ip @ fp) 0 of
              None \<Rightarrow> None
            | Some n \<Rightarrow> Some ((if neg then - 1 else 1) * of_nat n / 10 ^ length fp)))"

text \<open>One rounding that a column can apply: to the nearest multiple of 0.01, a tie going
  toward zero. At the ties of the examples (49.985, 0.015, \<open>- 0.015\<close> and 1500000.015) it
  gives the value that a column held in binary floating point, as in SQLite, gives back.\<close>

definition quantize_nearest :: "decimal \<Rightarrow> decimal" where
  "quantize_nearest x =
     (let y = x * 100; n = \<lfloor>y\<rfloor>; r = y - of_int n
      in of_int (if 1 / 2 < r \<or> (r = 1 / 2 \<and> y < 0) then n + 1 else n) / 100)"

definition sample_env :: env where
  "sample_env =
     \<lparr>Decimal = decimal_literal, sql_int = nat_literal,
      hash_password = (\<lambda>p. ''#'' @ p), check_password = (\<lambda>p h. h = ''#'' @ p),
      confirm_email_token = (\<lambda>t. Some t), OTP_EXP_MINUTES = None,
      quantize = quantize_nearest\<rparr>"


section \<open>Stores used in the examples\<close>

definition example_registration :: db where
  "example_registration =
     final_db empty_db
       (handle sample_env 0
          (Register POST [(''email'', ''Ana@Example.org ''), (''password'', ''secret'')])
          empty_db empty_session)"

definition example_store :: db where
  "example_store =
     \<lparr>users =
        [\<lparr>u_id = 1, u_email = ''ana@example.org'', u_password_hash = ''#secret'',
          u_email_verified = True, u_created_at = 0\<rparr>,
         \<lparr>u_id = 2, u_email = ''bob@example.org'', u_password_hash = ''#hidden'',
          u_email_verified = True, u_created_at = 0\<rparr>],
      otp_codes = [],
      accounts =
        [\<lparr>a_id = 1, a_user_id = 1, a_bank_type = ''NEQUI'', a_name = ''A'', a_balance = 50\<rparr>,
         \<lparr>a_id = 2, a_user_id = 1, a_bank_type = ''NU'', a_name = ''B'', a_balance = 0\<rparr>,
         \<lparr>a_id = 3, a_user_id = 2, a_bank_type = ''OTRO'', a_name = ''C'', a_balance = 10\<rparr>],
      transactions =
        [\<lparr>t_id = 1, t_account_id = 1, t_date = 0, t_description = ''Saldo inicial'',
          t_amount = 50, t_type = ''INGRESO'', t_counterparty_account_id = None,
          t_counterparty_email = None\<rparr>,
         \<lparr>t_id = 2, t_account_id = 3, t_date = 0, t_description = ''Saldo inicial'',
          t_amount = 10, t_type = ''INGRESO'', t_counterparty_account_id = None,
          t_counterparty_email = None\<rparr>]\<rparr>"

definition example_session :: session where
  "example_session = empty_session\<lparr>s_user_id := Some 1\<rparr>"

definition staged_internal :: result where
  "staged_internal =
     transfer_internal sample_env 0 123456
       [(''from_account_id'', ''1''), (''to_account_id'', ''2''), (''amount'', ''30.00'')]
       example_store example_session"


definition confirmed_internal :: result where
  "confirmed_internal =
     confirmar_operacion sample_env 60000000 POST [(''code'', '' 123456'')]
       (final_db example_store staged_internal) (sess staged_internal)"


definition expired_confirmation :: result where
  "expired_confirmation =
     confirmar_operacion sample_env 360000000 POST [(''code'', ''123456'')]
       (final_db example_store staged_internal) (sess staged_internal)"

definition drain_staged :: "db \<Rightarrow> result" where
  "drain_staged d =
     transfer_internal sample_env 1000000 654321
       [(''from_account_id'', ''1''), (''to_account_id'', ''2''), (''amount'', ''40'')]
       d example_session"

definition drain_confirmed :: "db \<Rightarrow> result" where
  "drain_confirmed d =
     confirmar_operacion sample_env 2000000 POST [(''code'', ''654321'')]
       (final_db d (drain_staged d)) (sess (drain_staged d))"

definition after_drain :: "db \<Rightarrow> db" where
  "after_drain d = final_db (final_db d (drain_staged d)) (drain_confirmed d)"

definition late_internal :: result where
  "late_internal =
     confirmar_operacion sample_env 3000000 POST [(''code'', ''123456'')]
       (after_drain (final_db example_store staged_internal)) (sess staged_internal)"


definition example_user :: user where
  "example_user =
     \<lparr>u_id = 1, u_email = ''ana@example.org'', u_password_hash = ''#secret'',
      u_email_verified = True, u_created_at = 0\<rparr>"

definition example_challenge :: otp_code where
  "example_challenge =
     \<lparr>o_id = 1, o_user_id = 1, o_code = ''123456'', o_created_at = 0, o_used = False\<rparr>"

definition example_op_internal :: pending_op where
  "example_op_internal =
     \<lparr>op_name = ''transfer_internal'',
      op_payload =
        [(''from_account_id'', Some ''1''), (''to_account_id'', Some ''2''),
         (''amount'', Some ''30.00''), (''description'', Some ''Transferencia interna'')],
      op_created_at = 0\<rparr>"

definition example_op_external :: pending_op where
  "example_op_external =
     \<lparr>op_name = ''transfer_external'',
      op_payload =
        [(''from_account_id'', Some ''1''), (''recipient_email'', Some ''bob@example.org''),
         (''amount'', Some ''30.00''),
         (''description'', Some ''Transferencia a otro usuario'')],
      op_created_at = 0\<rparr>"

definition resent_same_code :: result where
  "resent_same_code =
     reenviar_otp_operacion 2000000 123456
       (final_db example_store staged_internal) (sess staged_internal)"

definition confirmed_after_resend :: result where
  "confirmed_after_resend =
     confirmar_operacion sample_env 3000000 POST [(''code'', ''123456'')]
       (final_db (final_db example_store staged_internal) resent_same_code)
       (sess resent_same_code)"

definition resent_new_code :: result where
  "resent_new_code =
     reenviar_otp_operacion 2000000 654321
       (final_db example_store staged_internal) (sess staged_internal)"

definition old_code_after_resend :: result where
  "old_code_after_resend =
     confirmar_operacion sample_env 3000000 POST [(''code'', ''123456'')]
       (final_db (final_db example_store staged_internal) resent_new_code)
       (sess resent_new_code)"

definition staged_negative :: result where
  "staged_negative =
     create_account sample_env 0 123456
       [(''bank_type'', ''NEQUI''), (''name'', ''Daily''), (''initial_balance'', ''-5'')]
       example_store example_session"

definition confirmed_negative :: result where
  "confirmed_negative =
     confirmar_operacion sample_env 60000000 POST [(''code'', ''123456'')]
       (final_db example_store staged_negative) (sess staged_negative)"

definition logged_once :: result where
  "logged_once =
     login sample_env 0 111111 POST
       [(''email'', ''ana@example.org''), (''password'', ''secret'')]
       example_store empty_session"

definition logged_twice :: result where
  "logged_twice =
     login sample_env 60000000 222222 POST
       [(''email'', ''ana@example.org''), (''password'', ''secret'')]
       (final_db example_store logged_once) (sess logged_once)"

definition older_code_login :: result where
  "older_code_login =
     verify_otp sample_env 120000000 POST [(''code'', ''111111'')]
       (final_db (final_db example_store logged_once) logged_twice) (sess logged_twice)"











section \<open>Keys are fresh\<close>


lemma fold_max_ge: "(a::nat) \<le> fold max ids a"
  by (induction ids arbitrary: a) (auto intro: order_trans [OF max.cobounded2])

lemma fold_max_mem: "x \<in> set ids \<Longrightarrow> (x::nat) \<le> fold max ids a"
proof (induction ids arbitrary: a)
  case Nil
  then show ?case by simp
next
  case (Cons y ys)
  show ?case
  proof (cases "x = y")
    case True
    have "y \<le> max y a" by simp
    also have "\<dots> \<le> fold max ys (max y a)" by (rule fold_max_ge)
    finally show ?thesis using True by simp
  next
    case False
    with Cons show ?thesis by simp
  qed
qed

lemma next_id_fresh: "x \<in> set ids \<Longrightarrow> x < next_id ids"
  unfolding next_id_def using fold_max_mem [of x ids 0] by simp

lemma next_id_notin: "next_id ids \<notin> set ids"
  using next_id_fresh [of "next_id ids" ids] by auto

section \<open>Shapes of what the handlers commit\<close>

lemma same_ledger_refl: "same_ledger d d"
  by (simp add: same_ledger_def)

lemma same_ledger_add_otp: "same_ledger d (add_otp d otp)"
  by (simp add: same_ledger_def add_otp_def)

lemma same_ledger_set_otp_used: "same_ledger d (set_otp_used d i)"
  by (simp add: same_ledger_def set_otp_used_def)

lemma map_u_id_verified:
  "map u_id (map (\<lambda>u. if u_id u = i then u\<lparr>u_email_verified := True\<rparr> else u) us) = map u_id us"
  by (induction us) auto

lemma same_ledger_set_email_verified: "same_ledger d (set_email_verified d i)"
  by (simp add: same_ledger_def set_email_verified_def map_u_id_verified)

lemma add_transactions_other [simp]:
  "accounts (add_transactions d ts) = accounts d"
  "users (add_transactions d ts) = users d"
  "otp_codes (add_transactions d ts) = otp_codes d"
  by (induction d ts rule: add_transactions.induct) simp_all

lemma add_transactions_shape:
  "\<exists>ts'. transactions (add_transactions d ts) = transactions d @ ts' \<and>
         map t_account_id ts' = map t_account_id ts \<and> map t_amount ts' = map t_amount ts"
proof (induction d ts rule: add_transactions.induct)
  case (1 d)
  show ?case by simp
next
  case (2 d t ts)
  then obtain ts' where h: "transactions (add_transactions (d\<lparr>transactions := transactions d @ [t\<lparr>t_id := next_id (map t_id (transactions d))\<rparr>]\<rparr>) ts)
      = (transactions d @ [t\<lparr>t_id := next_id (map t_id (transactions d))\<rparr>]) @ ts'"
    "map t_account_id ts' = map t_account_id ts" "map t_amount ts' = map t_amount ts"
    by auto
  show ?case
    apply (rule exI [of _ "t\<lparr>t_id := next_id (map t_id (transactions d))\<rparr> # ts'"])
    using h by simp
qed


lemma add_transactions_mem:
  assumes "t \<in> set (transactions (add_transactions d ts))"
  shows "t \<in> set (transactions d) \<or>
         (t_account_id t \<in> set (map t_account_id ts) \<and> t_amount t \<in> set (map t_amount ts))"
proof -
  obtain ts' where h: "transactions (add_transactions d ts) = transactions d @ ts'"
    "map t_account_id ts' = map t_account_id ts" "map t_amount ts' = map t_amount ts"
    using add_transactions_shape by blast
  from assms h(1) have "t \<in> set (transactions d) \<or> t \<in> set ts'" by simp
  moreover have "t_account_id t \<in> set (map t_account_id ts')" "t_amount t \<in> set (map t_amount ts')"
    if "t \<in> set ts'" using that by simp_all
  ultimately show ?thesis using h(2,3) by metis
qed

lemma add_account_sel [simp]:
  "accounts (add_account d a) = accounts d @ [a]"
  "users (add_account d a) = users d"
  "transactions (add_account d a) = transactions d"
  "otp_codes (add_account d a) = otp_codes d"
  by (simp_all add: add_account_def)

lemma ledger_sum_add_account [simp]: "ledger_sum (add_account d a) i = ledger_sum d i"
  by (simp add: ledger_sum_def add_account_def)

lemma new_account_sel [simp]:
  "a_id (new_account d uid bt name bal) = next_id (map a_id (accounts d))"
  "a_user_id (new_account d uid bt name bal) = uid"
  "a_bank_type (new_account d uid bt name bal) = bt"
  "a_name (new_account d uid bt name bal) = name"
  "a_balance (new_account d uid bt name bal) = bal"
  by (simp_all add: new_account_def)

lemma ledger_sum_balance_only:
  "transactions d' = transactions d \<Longrightarrow> ledger_sum d' i = ledger_sum d i"
  by (simp add: ledger_sum_def)

lemma accounts_apply_transfer:
  "accounts (apply_transfer E now d from_acc to_acc amount desc oe ie) =
     map (\<lambda>a. if a_id a = a_id from_acc \<or> a_id a = a_id to_acc
               then a\<lparr>a_balance :=
                        quantize E (a_balance a +
                          moved (a_id from_acc) (a_id to_acc) amount (a_id a))\<rparr>
               else a)
       (accounts d)"
  by (simp add: apply_transfer_def Let_def sub_balance_def add_balance_def flush_balances_def
      moved_def comp_def cong: map_cong)

lemma users_apply_transfer [simp]:
  "users (apply_transfer E now d from_acc to_acc amount desc oe ie) = users d"
  "otp_codes (apply_transfer E now d from_acc to_acc amount desc oe ie) = otp_codes d"
  by (simp_all add: apply_transfer_def Let_def)

lemma transactions_apply_transfer:
  "\<exists>tx_out tx_in.
     transactions (apply_transfer E now d from_acc to_acc amount desc oe ie) =
       transactions d @ [tx_out, tx_in] \<and>
     t_account_id tx_out = a_id from_acc \<and> t_amount tx_out = quantize E (- amount) \<and>
     t_account_id tx_in = a_id to_acc \<and> t_amount tx_in = quantize E amount"
  by (simp add: apply_transfer_def Let_def)

lemma map_a_id_apply_transfer:
  "map a_id (accounts (apply_transfer E now d from_acc to_acc amount desc oe ie)) =
     map a_id (accounts d)"
  by (simp add: accounts_apply_transfer comp_def cong: map_cong)

lemma map_a_user_id_apply_transfer:
  "map a_user_id (accounts (apply_transfer E now d from_acc to_acc amount desc oe ie)) =
     map a_user_id (accounts d)"
  by (simp add: accounts_apply_transfer comp_def cong: map_cong)

lemma find_mem: "find P xs = Some x \<Longrightarrow> x \<in> set xs \<and> P x"
  by (auto simp: find_Some_iff)

lemma account_by_id_user_mem:
  "account_by_id_user E d raw uid = Some a \<Longrightarrow> a \<in> set (accounts d) \<and> a_user_id a = uid"
  by (auto simp: account_by_id_user_def split: option.splits dest: find_mem)

lemma first_account_of_user_mem:
  "first_account_of_user d uid = Some a \<Longrightarrow> a \<in> set (accounts d) \<and> a_user_id a = uid"
  by (auto simp: first_account_of_user_def dest: find_mem)

lemma session_user_mem: "session_user d s = Some usr \<Longrightarrow> usr \<in> set (users d)"
  by (auto simp: session_user_def user_by_id_def split: option.splits dest: find_mem)

text \<open>What an executor commits is an opened account or an applied transfer.\<close>

lemma execute_create_account_shape:
  "d' \<in> set (fst (execute_create_account E now d usr bt name raw)) \<longrightarrow>
     (\<exists>v b ts. d' = add_transactions
                      (add_account d (new_account d (u_id usr) b name (quantize E v))) ts \<and>
        ((v = 0 \<and> ts = []) \<or>
         (\<exists>t. ts = [t] \<and> t_account_id t = next_id (map a_id (accounts d)) \<and>
               t_amount t = quantize E v)))"
proof (cases "fst (execute_create_account E now d usr bt name raw) = []")
  case True
  then show ?thesis by simp
next
  case False
  then obtain b v where v: "bt = Some b"
      "Decimal E (or_str (Some (strip (or_str raw ''0''))) ''0'') = Some v"
      "b \<in> set BANK_TYPES" "name \<noteq> []"
    unfolding execute_create_account_def Let_def
    by (auto split: option.splits if_splits)
  let ?acc = "new_account d (u_id usr) b name (quantize E v)"
  let ?t = "\<lparr>t_id = 0, t_account_id = a_id ?acc, t_date = now,
             t_description = ''Saldo inicial'', t_amount = quantize E v, t_type = ''INGRESO'',
             t_counterparty_account_id = None, t_counterparty_email = None\<rparr>"
  have e: "fst (execute_create_account E now d usr bt name raw) =
      [if v \<noteq> 0 then add_transactions (add_account d ?acc) [?t] else add_account d ?acc]"
    using v unfolding execute_create_account_def Let_def
    by (simp del: add_transactions.simps)
  show ?thesis
  proof (cases "v = 0")
    case True
    have "add_account d ?acc = add_transactions (add_account d ?acc) []" by simp
    with True e show ?thesis by (intro impI exI [of _ v] exI [of _ b] exI [of _ "[]"]) simp
  next
    case False
    with e show ?thesis
      by (intro impI exI [of _ v] exI [of _ b] exI [of _ "[?t]"])
        (simp del: add_transactions.simps)
  qed
qed

lemma execute_transfer_internal_shape:
  "d' \<in> set (fst (execute_transfer_internal E now d usr from_id to_id raw desc)) \<longrightarrow>
     (\<exists>from_acc to_acc amount.
        transfer_amount E raw = Some amount \<and>
        account_by_id_user E d from_id (u_id usr) = Some from_acc \<and>
        account_by_id_user E d to_id (u_id usr) = Some to_acc \<and>
        d' = apply_transfer E now d from_acc to_acc amount desc None None)"
  unfolding execute_transfer_internal_def by (simp split: option.split)

lemma execute_transfer_external_shape:
  "d' \<in> set (fst (execute_transfer_external E now d usr from_id email raw desc)) \<longrightarrow>
     (\<exists>from_acc recipient to_acc amount.
        transfer_amount E raw = Some amount \<and>
        account_by_id_user E d from_id (u_id usr) = Some from_acc \<and>
        user_by_email d email = Some recipient \<and>
        first_account_of_user d (u_id recipient) = Some to_acc \<and>
        d' = apply_transfer E now d from_acc to_acc amount desc
               (Some (u_email recipient)) (Some (u_email usr)))"
  unfolding execute_transfer_external_def by (simp split: option.split)

lemma run_pending_operation_shape:
  assumes m: "d' \<in> set (fst (run_pending_operation E now d usr op))"
  shows "(\<exists>v b name ts. d' = add_transactions
                      (add_account d (new_account d (u_id usr) b name (quantize E v))) ts \<and>
            ((v = 0 \<and> ts = []) \<or>
             (\<exists>t. ts = [t] \<and> t_account_id t = next_id (map a_id (accounts d)) \<and>
                   t_amount t = quantize E v))) \<or>
         (\<exists>from_acc to_acc amount desc oe ie.
            transfer_amount E (payload_get_default (op_payload op) ''amount'' []) = Some amount \<and>
            from_acc \<in> set (accounts d) \<and> to_acc \<in> set (accounts d) \<and>
            d' = apply_transfer E now d from_acc to_acc amount desc oe ie)"
proof -
  consider (c) "op_name op = ''create_account''"
    | (i) "op_name op \<noteq> ''create_account''" "op_name op = ''transfer_internal''"
    | (e) "op_name op \<noteq> ''create_account''" "op_name op \<noteq> ''transfer_internal''"
          "op_name op = ''transfer_external''"
    | (u) "op_name op \<noteq> ''create_account''" "op_name op \<noteq> ''transfer_internal''"
          "op_name op \<noteq> ''transfer_external''"
    by blast
  then show ?thesis
  proof cases
    case c
    with m have "d' \<in> set (fst (execute_create_account E now d usr
        (payload_get_default (op_payload op) ''bank_type'' ''OTRO'')
        (strip (or_str (payload_get (op_payload op) ''name'') []))
        (payload_get_default (op_payload op) ''initial_balance'' ''0'')))"
      by (simp add: run_pending_operation_def Let_def)
    from execute_create_account_shape [rule_format, OF this] show ?thesis by blast
  next
    case i
    with m have "d' \<in> set (fst (execute_transfer_internal E now d usr
        (payload_get (op_payload op) ''from_account_id'')
        (payload_get (op_payload op) ''to_account_id'')
        (payload_get_default (op_payload op) ''amount'' [])
        (or_str (Some (strip (or_str (payload_get (op_payload op) ''description'') [])))
             ''Transferencia interna'')))"
      by (simp add: run_pending_operation_def Let_def)
    from execute_transfer_internal_shape [rule_format, OF this]
    obtain from_acc to_acc amount where
      "transfer_amount E (payload_get_default (op_payload op) ''amount'' []) = Some amount"
      "account_by_id_user E d (payload_get (op_payload op) ''from_account_id'') (u_id usr) =
         Some from_acc"
      "account_by_id_user E d (payload_get (op_payload op) ''to_account_id'') (u_id usr) =
         Some to_acc"
      "d' = apply_transfer E now d from_acc to_acc amount
         (or_str (Some (strip (or_str (payload_get (op_payload op) ''description'') [])))
             ''Transferencia interna'') None None"
      by blast
    then show ?thesis
      by (intro disjI2 exI [of _ from_acc] exI [of _ to_acc] exI [of _ amount] exI)
        (auto dest: account_by_id_user_mem)
  next
    case e
    with m have "d' \<in> set (fst (execute_transfer_external E now d usr
        (payload_get (op_payload op) ''from_account_id'')
        (strip (lower (or_str (payload_get (op_payload op) ''recipient_email'') [])))
        (payload_get_default (op_payload op) ''amount'' [])
        (or_str (Some (strip (or_str (payload_get (op_payload op) ''description'') [])))
             ''Transferencia a otro usuario'')))"
      by (simp add: run_pending_operation_def Let_def)
    from execute_transfer_external_shape [rule_format, OF this]
    obtain from_acc recipient to_acc amount where
      "transfer_amount E (payload_get_default (op_payload op) ''amount'' []) = Some amount"
      "user_by_email d (strip (lower (or_str (payload_get (op_payload op) ''recipient_email'') [])))
         = Some recipient"
      "account_by_id_user E d (payload_get (op_payload op) ''from_account_id'') (u_id usr) =
         Some from_acc"
      "first_account_of_user d (u_id recipient) = Some to_acc"
      "d' = apply_transfer E now d from_acc to_acc amount
         (or_str (Some (strip (or_str (payload_get (op_payload op) ''description'') [])))
             ''Transferencia a otro usuario'') (Some (u_email recipient)) (Some (u_email usr))"
      by blast
    then show ?thesis
      by (intro disjI2 exI [of _ from_acc] exI [of _ to_acc] exI [of _ amount] exI)
        (auto dest: account_by_id_user_mem first_account_of_user_mem)
  next
    case u
    with m show ?thesis by (simp add: run_pending_operation_def Let_def)
  qed
qed

lemma run_pending_operation_cases:
  assumes "d' \<in> set (fst (run_pending_operation E now d usr op))"
  obtains (opened) v b name ts where
      "d' = add_transactions
              (add_account d (new_account d (u_id usr) b name (quantize E v))) ts"
      "(v = 0 \<and> ts = []) \<or>
       (\<exists>t. ts = [t] \<and> t_account_id t = next_id (map a_id (accounts d)) \<and>
             t_amount t = quantize E v)"
    | (moved) from_acc to_acc amount desc oe ie where
      "transfer_amount E (payload_get_default (op_payload op) ''amount'' []) = Some amount"
      "from_acc \<in> set (accounts d)" "to_acc \<in> set (accounts d)"
      "d' = apply_transfer E now d from_acc to_acc amount desc oe ie"
  using run_pending_operation_shape [OF assms] by blast

lemma final_db_cases: "final_db d r = d \<or> final_db d r \<in> set (commits r)"
  by (simp add: final_db_def)

lemma commits_reply [simp]: "commits (reply s r) = []" "sess (reply s r) = s" "resp (reply s r) = r"
  by (simp_all add: reply_def)

lemma users_set_otp_used [simp]:
  "users (set_otp_used d i) = users d" "accounts (set_otp_used d i) = accounts d"
  "transactions (set_otp_used d i) = transactions d"
  by (simp_all add: set_otp_used_def)

lemma users_add_otp [simp]:
  "users (add_otp d c) = users d" "accounts (add_otp d c) = accounts d"
  "transactions (add_otp d c) = transactions d" "otp_codes (add_otp d c) = otp_codes d @ [c]"
  by (simp_all add: add_otp_def)

lemma login_required_commits:
  "d' \<in> set (commits (login_required view d s)) \<Longrightarrow> d' \<in> set (commits (view d s))"
  by (simp add: login_required_def split: if_splits)

lemma staging_same_ledger:
  shows "d' \<in> set (commits (create_account_view E now r f d s)) \<Longrightarrow> same_ledger d d'"
    and "d' \<in> set (commits (transfer_internal_view E now r f d s)) \<Longrightarrow> same_ledger d d'"
    and "d' \<in> set (commits (transfer_external_view E now r f d s)) \<Longrightarrow> same_ledger d d'"
    and "d' \<in> set (commits (reenviar_otp_operacion_view now r d s)) \<Longrightarrow> same_ledger d d'"
  unfolding create_account_view_def transfer_internal_view_def transfer_external_view_def
    reenviar_otp_operacion_view_def Let_def start_operation_otp_def
  by (auto split: option.splits if_splits intro: same_ledger_add_otp)

lemma auth_same_ledger:
  shows "d' \<in> set (commits (verify_email E token d s)) \<Longrightarrow> same_ledger d d'"
    and "d' \<in> set (commits (login E now r meth f d s)) \<Longrightarrow> same_ledger d d'"
    and "d' \<in> set (commits (verify_otp E now meth f d s)) \<Longrightarrow> same_ledger d d'"
    and "d' \<in> set (commits (logout d s)) \<Longrightarrow> same_ledger d d'"
    and "d' \<in> set (commits (cancelar_operacion d s)) \<Longrightarrow> same_ledger d d'"
  unfolding verify_email_def login_def verify_otp_def logout_def cancelar_operacion_def Let_def
    login_required_def
  by (auto split: option.splits if_splits intro: same_ledger_add_otp
      same_ledger_set_otp_used same_ledger_set_email_verified)

lemma confirmar_operacion_view_shape:
  assumes m: "d' \<in> set (commits (confirmar_operacion_view E now meth f d s))"
  shows "\<exists>i. d' = set_otp_used d i \<or>
           (\<exists>usr op. usr \<in> set (users d) \<and> s_pending_operation s = Some op \<and>
              d' \<in> set (fst (run_pending_operation E now (set_otp_used d i) usr op)))"
  using m unfolding confirmar_operacion_view_def Let_def
  apply (auto split: option.splits if_splits prod.splits dest!: session_user_mem)
  apply (metis fst_conv)
  done

lemma register_final:
  "final_db d (register E now meth f d s) = d \<or>
   (\<exists>email password. final_db d (register E now meth f d s) =
      last (register_commits E now d email password))"
  unfolding register_def Let_def final_db_def
  by (auto split: option.splits)

text \<open>A property of stores is kept by every request as soon as it is kept by a change
  outside the ledger, by a registration and by an executor.\<close>

lemma handle_preserves:
  fixes P :: "db \<Rightarrow> bool"
  assumes same: "\<And>d d'. P d \<Longrightarrow> same_ledger d d' \<Longrightarrow> P d'"
    and reg: "\<And>d email password. P d \<Longrightarrow> P (last (register_commits E now d email password))"
    and run: "\<And>d usr op d'. P d \<Longrightarrow> usr \<in> set (users d) \<Longrightarrow> s_pending_operation s = Some op \<Longrightarrow>
                d' \<in> set (fst (run_pending_operation E now d usr op)) \<Longrightarrow> P d'"
    and P: "P d"
  shows "P (final_db d (handle E now req d s))"
proof (cases req)
  case (Register m f)
  then show ?thesis
    using register_final [of d E now m f s] reg [OF P] P by auto
next
  case (Confirmar_operacion m f)
  show ?thesis
  proof (cases "final_db d (handle E now req d s) = d")
    case True
    with P show ?thesis by simp
  next
    case False
    with final_db_cases [of d "handle E now req d s"]
    have "final_db d (handle E now req d s) \<in> set (commits (confirmar_operacion_view E now m f d s))"
      using Confirmar_operacion
      by (auto simp: confirmar_operacion_def dest!: login_required_commits)
    from confirmar_operacion_view_shape [OF this]
    obtain i where i: "final_db d (handle E now req d s) = set_otp_used d i \<or>
           (\<exists>usr op. usr \<in> set (users d) \<and> s_pending_operation s = Some op \<and>
              final_db d (handle E now req d s)
                \<in> set (fst (run_pending_operation E now (set_otp_used d i) usr op)))"
      by blast
    have P1: "P (set_otp_used d i)" by (rule same [OF P same_ledger_set_otp_used])
    from i show ?thesis
    proof
      assume "final_db d (handle E now req d s) = set_otp_used d i"
      with P1 show ?thesis by simp
    next
      assume "\<exists>usr op. usr \<in> set (users d) \<and> s_pending_operation s = Some op \<and>
              final_db d (handle E now req d s)
                \<in> set (fst (run_pending_operation E now (set_otp_used d i) usr op))"
      then obtain usr op where "usr \<in> set (users (set_otp_used d i))"
          "s_pending_operation s = Some op"
          "final_db d (handle E now req d s)
             \<in> set (fst (run_pending_operation E now (set_otp_used d i) usr op))"
        by auto
      then show ?thesis by (rule run [OF P1])
    qed
  qed
qed (use final_db_cases [of d "handle E now req d s"] P in
     \<open>auto simp: create_account_def transfer_internal_def transfer_external_def
        reenviar_otp_operacion_def dest!: login_required_commits
        dest: same [OF P staging_same_ledger(1)] same [OF P staging_same_ledger(2)]
          same [OF P staging_same_ledger(3)] same [OF P staging_same_ledger(4)]
          same [OF P auth_same_ledger(1)] same [OF P auth_same_ledger(2)]
          same [OF P auth_same_ledger(3)] same [OF P auth_same_ledger(4)]
          same [OF P auth_same_ledger(5)]\<close>)


section \<open>Every request keeps the store consistent\<close>

lemma consistent_empty: "consistent empty_db"
  by (simp add: consistent_def empty_db_def)

lemma consistent_same: "consistent d \<Longrightarrow> same_ledger d d' \<Longrightarrow> consistent d'"
  by (simp add: consistent_def same_ledger_def)

lemma consistent_open_account:
  assumes c: "consistent d"
    and u: "a_user_id acc \<in> set (map u_id (users d))"
    and i: "a_id acc = next_id (map a_id (accounts d))"
    and t: "\<forall>t \<in> set ts. t_account_id t = a_id acc"
  shows "consistent (add_transactions (add_account d acc) ts)"
proof -
  let ?d = "add_transactions (add_account d acc) ts"
  have 1: "distinct (map a_id (accounts ?d))"
    using c i next_id_notin [of "map a_id (accounts d)"] by (simp add: consistent_def)
  have 2: "t_account_id x \<in> set (map a_id (accounts ?d))" if "x \<in> set (transactions ?d)" for x
  proof -
    from add_transactions_mem [OF that]
    have "x \<in> set (transactions d) \<or> t_account_id x \<in> set (map t_account_id ts)" by auto
    then show ?thesis
    proof
      assume "x \<in> set (transactions d)"
      with c show ?thesis by (simp add: consistent_def)
    next
      assume "t_account_id x \<in> set (map t_account_id ts)"
      with t have "t_account_id x = a_id acc" by auto
      then show ?thesis by simp
    qed
  qed
  have 3: "\<forall>a \<in> set (accounts ?d). a_user_id a \<in> set (map u_id (users ?d))"
    using c u by (auto simp: consistent_def)
  from 1 2 3 show ?thesis unfolding consistent_def by blast
qed

lemma consistent_apply_transfer:
  assumes c: "consistent d"
    and f: "from_acc \<in> set (accounts d)" and t: "to_acc \<in> set (accounts d)"
  shows "consistent (apply_transfer E now d from_acc to_acc amount desc oe ie)"
proof -
  let ?d = "apply_transfer E now d from_acc to_acc amount desc oe ie"
  obtain tx_out tx_in where tx: "transactions ?d = transactions d @ [tx_out, tx_in]"
      "t_account_id tx_out = a_id from_acc" "t_account_id tx_in = a_id to_acc"
    using transactions_apply_transfer [of E now d from_acc to_acc amount desc oe ie] by blast
  have 1: "distinct (map a_id (accounts ?d))"
    using c by (simp add: map_a_id_apply_transfer consistent_def)
  have 2: "\<forall>x \<in> set (transactions ?d). t_account_id x \<in> set (map a_id (accounts ?d))"
    using c f t tx unfolding map_a_id_apply_transfer consistent_def by auto
  have "set (map a_user_id (accounts ?d)) \<subseteq> set (map u_id (users ?d))"
    using c unfolding map_a_user_id_apply_transfer consistent_def by auto
  then have 3: "\<forall>a \<in> set (accounts ?d). a_user_id a \<in> set (map u_id (users ?d))"
    by auto
  from 1 2 3 show ?thesis unfolding consistent_def by blast
qed

lemma consistent_more_users:
  "consistent d \<Longrightarrow> consistent (d\<lparr>users := users d @ us\<rparr>)"
  by (auto simp: consistent_def)

lemma register_commits_last_shape:
  "last (register_commits E now d email password) =
     add_transactions
       (add_account (d\<lparr>users := users d @ [new_user E d email password now]\<rparr>)
          (new_account d (next_id (map u_id (users d))) ''OTRO'' ''Cuenta Ahorros Principal''
             1500000))
       [\<lparr>t_id = 0, t_account_id = next_id (map a_id (accounts d)), t_date = now,
         t_description = ''Dep'' @ [CHR 0xF3] @ ''sito inicial'',
         t_amount = 1500000, t_type = ''ingreso'',
         t_counterparty_account_id = None, t_counterparty_email = None\<rparr>]"
  by (simp add: register_commits_def Let_def new_user_def new_account_def add_account_def)

lemma consistent_register:
  assumes c: "consistent d"
  shows "consistent (last (register_commits E now d email password))"
  unfolding register_commits_last_shape
  by (rule consistent_open_account [OF consistent_more_users [OF c]])
    (simp_all add: new_user_def new_account_def)

lemma consistent_run:
  assumes c: "consistent d" and u: "usr \<in> set (users d)"
    and m: "d' \<in> set (fst (run_pending_operation E now d usr op))"
  shows "consistent d'"
  using m
proof (cases rule: run_pending_operation_cases)
  case (opened v b name ts)
  note d' = opened(1) and ts = opened(2)
  from ts have "\<forall>t \<in> set ts.
      t_account_id t = a_id (new_account d (u_id usr) b name (quantize E v))"
    by auto
  with c u show ?thesis unfolding d'
    by (intro consistent_open_account) simp_all
next
  case (moved from_acc to_acc amount desc oe ie)
  with c show ?thesis by (simp add: consistent_apply_transfer)
qed

lemma handle_consistent:
  assumes c: "consistent d"
  shows "consistent (final_db d (handle E now req d s))"
  by (rule handle_preserves [where P = consistent, OF consistent_same consistent_register
        consistent_run c])

lemma reachable_consistent: "reachable E d \<Longrightarrow> consistent d"
  by (induction rule: reachable.induct) (simp_all add: consistent_empty handle_consistent)


section \<open>Amounts with two fraction digits\<close>

lemma cents_iff: "cents x \<longleftrightarrow> (\<exists>k::int. x * 100 = of_int k)"
  unfolding cents_def by (rule of_int_floor_cancel)


lemma cents_of_int [simp]: "cents (of_int k)"
proof -
  have "of_int k * (100::rat) = of_int (k * 100)" by simp
  then show ?thesis unfolding cents_iff by blast
qed

lemma cents_numeral [simp]: "cents (numeral n)"
  using cents_of_int [of "numeral n"] by simp

lemma cents_add: "cents x \<Longrightarrow> cents y \<Longrightarrow> cents (x + y)"
proof -
  assume "cents x" "cents y"
  then obtain k l :: int where "x * 100 = of_int k" "y * 100 = of_int l"
    unfolding cents_iff by blast
  then have "(x + y) * 100 = of_int (k + l)" by (simp add: algebra_simps)
  then show ?thesis unfolding cents_iff by blast
qed

lemma cents_minus: "cents x \<Longrightarrow> cents (- x)"
proof -
  assume "cents x"
  then obtain k :: int where "x * 100 = of_int k" unfolding cents_iff by blast
  then have "(- x) * 100 = of_int (- k)" by simp
  then show ?thesis unfolding cents_iff by blast
qed

lemma cents_diff: "cents x \<Longrightarrow> cents y \<Longrightarrow> cents (x - y)"
  using cents_add [of x "- y"] cents_minus [of y] by simp




lemma floor_rat_numeral:
  "\<lfloor>(numeral a :: rat) / numeral b\<rfloor> = numeral a div numeral b"
  using floor_divide_of_int_eq [of "numeral a" "numeral b", where ?'a = rat] by simp

lemma floor_rat_minus_numeral:
  "\<lfloor>- ((numeral a :: rat) / numeral b)\<rfloor> = - numeral a div numeral b"
  using floor_divide_of_int_eq [of "- numeral a" "numeral b", where ?'a = rat] by simp


lemma numeric_columnD:
  assumes "numeric_column E"
  shows "cents (quantize E x)" "cents y \<Longrightarrow> quantize E y = y"
  using assms by (simp_all add: numeric_column_def)

lemma in_cents_same: "in_cents d \<Longrightarrow> same_ledger d d' \<Longrightarrow> in_cents d'"
  by (simp add: in_cents_def same_ledger_def)

lemma in_cents_open_account:
  assumes c: "in_cents d" and a: "cents (a_balance acc)"
    and t: "\<forall>t \<in> set ts. cents (t_amount t)"
  shows "in_cents (add_transactions (add_account d acc) ts)"
proof -
  let ?d = "add_transactions (add_account d acc) ts"
  have 1: "\<forall>x \<in> set (accounts ?d). cents (a_balance x)"
    using c a by (auto simp: in_cents_def)
  have 2: "cents (t_amount x)" if "x \<in> set (transactions ?d)" for x
  proof -
    from add_transactions_mem [OF that]
    have "x \<in> set (transactions d) \<or> t_amount x \<in> set (map t_amount ts)" by auto
    then show ?thesis
    proof
      assume "x \<in> set (transactions d)"
      with c show ?thesis by (simp add: in_cents_def)
    next
      assume "t_amount x \<in> set (map t_amount ts)"
      with t show ?thesis by auto
    qed
  qed
  from 1 2 show ?thesis unfolding in_cents_def by blast
qed

lemma in_cents_apply_transfer:
  assumes n: "numeric_column E" and c: "in_cents d"
  shows "in_cents (apply_transfer E now d from_acc to_acc amount desc oe ie)"
proof -
  let ?d = "apply_transfer E now d from_acc to_acc amount desc oe ie"
  obtain tx_out tx_in where tx: "transactions ?d = transactions d @ [tx_out, tx_in]"
      "t_amount tx_out = quantize E (- amount)" "t_amount tx_in = quantize E amount"
    using transactions_apply_transfer [of E now d from_acc to_acc amount desc oe ie] by blast
  have 1: "\<forall>x \<in> set (accounts ?d). cents (a_balance x)"
    using c numeric_columnD(1) [OF n]
    by (auto simp: accounts_apply_transfer in_cents_def)
  have 2: "\<forall>x \<in> set (transactions ?d). cents (t_amount x)"
    using c numeric_columnD(1) [OF n] tx by (auto simp: in_cents_def)
  from 1 2 show ?thesis unfolding in_cents_def by blast
qed

lemma in_cents_more_users: "in_cents (d\<lparr>users := us\<rparr>) = in_cents d"
  by (simp add: in_cents_def)

lemma in_cents_register:
  assumes c: "in_cents d"
  shows "in_cents (last (register_commits E now d email password))"
  unfolding register_commits_last_shape
  by (rule in_cents_open_account) (simp_all add: in_cents_more_users c)

lemma in_cents_run:
  assumes n: "numeric_column E" and c: "in_cents d"
    and m: "d' \<in> set (fst (run_pending_operation E now d usr op))"
  shows "in_cents d'"
  using m
proof (cases rule: run_pending_operation_cases)
  case (opened v b name ts)
  note d' = opened(1) and ts = opened(2)
  from ts have "\<forall>t \<in> set ts. cents (t_amount t)"
    using numeric_columnD(1) [OF n] by auto
  with c show ?thesis unfolding d'
    by (intro in_cents_open_account) (simp_all add: numeric_columnD(1) [OF n])
next
  case (moved from_acc to_acc amount desc oe ie)
  with c n show ?thesis by (simp add: in_cents_apply_transfer)
qed

lemma in_cents_empty: "in_cents empty_db"
  by (simp add: in_cents_def empty_db_def)

lemma handle_in_cents:
  assumes n: "numeric_column E" and c: "in_cents d"
  shows "in_cents (final_db d (handle E now req d s))"
  by (rule handle_preserves [where P = in_cents, OF in_cents_same in_cents_register
        in_cents_run [OF n] c])

lemma reachable_in_cents:
  assumes n: "numeric_column E"
  shows "reachable E d \<Longrightarrow> in_cents d"
  by (induction rule: reachable.induct) (simp_all add: in_cents_empty handle_in_cents [OF n])



section \<open>Balances and ledger sums\<close>













section \<open>Registration\<close>


lemma register_success:
  assumes "resp (register E now meth f d s) = Render ''auth/email_verification_sent.html''"
  shows "commits (register E now meth f d s) =
           register_commits E now d (strip (lower (form_get_default f ''email'' [])))
             (form_get_default f ''password'' []) \<and>
         sess (register E now meth f d s) = s"
  using assms unfolding register_def Let_def
  by (simp split: if_splits option.splits)

lemma register_commits_length: "length (register_commits E now d email password) = 3"
  by (simp add: register_commits_def Let_def)

lemma register_commits_last:
  "last (register_commits E now d email password) =
     d\<lparr>users := users d @ [new_user E d email password now],
       accounts := accounts d @
         [new_account d (next_id (map u_id (users d))) ''OTRO'' ''Cuenta Ahorros Principal'' 1500000],
       transactions := transactions d @
         [\<lparr>t_id = next_id (map t_id (transactions d)),
           t_account_id = next_id (map a_id (accounts d)), t_date = now,
           t_description = ''Dep'' @ [CHR 0xF3] @ ''sito inicial'',
           t_amount = 1500000, t_type = ''ingreso'',
           t_counterparty_account_id = None, t_counterparty_email = None\<rparr>]\<rparr>"
  by (simp add: register_commits_def Let_def new_user_def new_account_def add_account_def)

text \<open>
  C10. Every successful registration creates, without any OTP confirmation (no challenge
  is written or read and the session is left as it was), exactly one account for the new
  user, named "Cuenta Ahorros Principal", with balance 1500000 and the default bank type
  OTRO, and exactly one transaction on that account, of amount +1500000: the new user has
  one account, not none.
\<close>

theorem register_opens_main_account:
  assumes r: "reachable E d"
    and ok: "resp (register E now meth f d s) = Render ''auth/email_verification_sent.html''"
  shows "\<exists>usr acc tx.
           length (commits (register E now meth f d s)) = 3 \<and>
           sess (register E now meth f d s) = s \<and>
           otp_codes (final_db d (register E now meth f d s)) = otp_codes d \<and>
           users (final_db d (register E now meth f d s)) = users d @ [usr] \<and>
           accounts (final_db d (register E now meth f d s)) = accounts d @ [acc] \<and>
           transactions (final_db d (register E now meth f d s)) = transactions d @ [tx] \<and>
           filter (\<lambda>a. a_user_id a = u_id usr)
             (accounts (final_db d (register E now meth f d s))) = [acc] \<and>
           a_bank_type acc = ''OTRO'' \<and> a_name acc = ''Cuenta Ahorros Principal'' \<and>
           a_balance acc = 1500000 \<and>
           filter (\<lambda>t. t_account_id t = a_id acc)
             (transactions (final_db d (register E now meth f d s))) = [tx] \<and>
           t_amount tx = 1500000"
proof -
  let ?email = "strip (lower (form_get_default f ''email'' []))"
  let ?pw = "form_get_default f ''password'' []"
  let ?R = "register E now meth f d s"
  have c: "consistent d" by (rule reachable_consistent [OF r])
  have cm: "commits ?R = register_commits E now d ?email ?pw" and se: "sess ?R = s"
    using register_success [OF ok] by simp_all
  have len: "length (commits ?R) = 3" by (simp add: cm register_commits_length)
  then have ne: "commits ?R \<noteq> []" by auto
  have fin: "final_db d ?R = last (register_commits E now d ?email ?pw)"
    using ne by (simp add: final_db_def cm)
  let ?uid = "next_id (map u_id (users d))"
  let ?aid = "next_id (map a_id (accounts d))"
  have nouser: "filter (\<lambda>a. a_user_id a = ?uid) (accounts d) = []"
  proof -
    have "\<forall>a \<in> set (accounts d). a_user_id a \<noteq> ?uid"
      using c next_id_notin [of "map u_id (users d)"] unfolding consistent_def by metis
    then show ?thesis by (simp add: filter_empty_conv)
  qed
  have notx: "filter (\<lambda>t. t_account_id t = ?aid) (transactions d) = []"
  proof -
    have "\<forall>t \<in> set (transactions d). t_account_id t \<noteq> ?aid"
      using c next_id_notin [of "map a_id (accounts d)"] unfolding consistent_def by metis
    then show ?thesis by (simp add: filter_empty_conv)
  qed
  show ?thesis
    apply (rule exI [of _ "new_user E d ?email ?pw now"])
    apply (rule exI [of _ "new_account d ?uid ''OTRO'' ''Cuenta Ahorros Principal'' 1500000"])
    apply (rule exI [of _ "\<lparr>t_id = next_id (map t_id (transactions d)),
           t_account_id = ?aid, t_date = now,
           t_description = ''Dep'' @ [CHR 0xF3] @ ''sito inicial'',
           t_amount = 1500000, t_type = ''ingreso'',
           t_counterparty_account_id = None, t_counterparty_email = None\<rparr>"])
    using len se nouser notx
    by (simp add: fin register_commits_last new_user_def)
qed

theorem register_opens_main_account_witness:
  "reachable sample_env empty_db \<and>
   resp (register sample_env 0 POST [(''email'', ''Ana@Example.org ''), (''password'', ''secret'')]
           empty_db empty_session) = Render ''auth/email_verification_sent.html'' \<and>
   map a_name (accounts example_registration) = [''Cuenta Ahorros Principal''] \<and>
   map t_amount (transactions example_registration) = [1500000]"
proof -
  have h: "resp (register sample_env 0 POST [(''email'', ''Ana@Example.org ''), (''password'', ''secret'')]
           empty_db empty_session) = Render ''auth/email_verification_sent.html''"
    by code_simp
  from register_opens_main_account [OF reachable_empty h]
  show ?thesis
    using h reachable_empty [of sample_env]
    by (auto simp: example_registration_def empty_db_def)
qed

section \<open>Confirmation of a pending operation\<close>

lemma bound_challenge_SomeD:
  assumes "bound_challenge d s = Some (usr, op, otp)"
  shows "\<not> falsy_id (s_user_id s)" "s_pending_operation s = Some op"
    "s_pending_operation_otp_id s = Some (o_id otp)" "o_id otp \<noteq> 0"
    "session_user d s = Some usr" "otp_by_id_user d (o_id otp) (u_id usr) = Some otp"
  using assms
  by (auto simp: bound_challenge_def otp_by_id_user_def split: option.splits if_splits
      dest: find_mem)

lemma confirmar_operacion_valid:
  assumes b: "bound_challenge d s = Some (usr, op, otp)"
    and code: "submitted_code f = o_code otp" "o_code otp \<noteq> []"
    and fresh: "\<not> o_used otp" "\<not> otp_is_expired E now otp"
  shows "confirmar_operacion E now POST f d s =
           \<lparr>commits = set_otp_used d (o_id otp) #
                        fst (run_pending_operation E now (set_otp_used d (o_id otp)) usr op),
            sess = clear_pending_operation s,
            resp = snd (run_pending_operation E now (set_otp_used d (o_id otp)) usr op)\<rparr>"
  using bound_challenge_SomeD [OF b] code fresh
  unfolding confirmar_operacion_def login_required_def confirmar_operacion_view_def
    submitted_code_def Let_def
  by (simp split: prod.splits)

lemma confirmar_operacion_commits:
  assumes "commits (confirmar_operacion E now meth f d s) \<noteq> []"
  shows "\<exists>usr op otp. bound_challenge d s = Some (usr, op, otp) \<and> meth = POST \<and>
           submitted_code f = o_code otp \<and> o_code otp \<noteq> [] \<and> \<not> o_used otp \<and>
           \<not> otp_is_expired E now otp"
proof -
  from assms have l: "\<not> falsy_id (s_user_id s)"
    by (auto simp: confirmar_operacion_def login_required_def)
  with assms have v: "commits (confirmar_operacion_view E now meth f d s) \<noteq> []"
    by (simp add: confirmar_operacion_def login_required_def)
  from v obtain op where op: "s_pending_operation s = Some op"
    unfolding confirmar_operacion_view_def by (cases "s_pending_operation s") auto
  from v op obtain i where i: "s_pending_operation_otp_id s = Some i"
    unfolding confirmar_operacion_view_def by (cases "s_pending_operation_otp_id s") auto
  from v op i have i0: "i \<noteq> 0"
    unfolding confirmar_operacion_view_def by (cases "i = 0") auto
  from v op i i0 obtain usr where usr: "session_user d s = Some usr"
    unfolding confirmar_operacion_view_def by (cases "session_user d s") auto
  from v op i i0 usr have m: "meth = POST"
    unfolding confirmar_operacion_view_def by (cases "meth = POST") auto
  from v op i i0 usr m have c: "strip (form_get_default f ''code'' []) \<noteq> []"
    unfolding confirmar_operacion_view_def Let_def
    by (cases "strip (form_get_default f ''code'' []) = []") auto
  from v op i i0 usr m c obtain otp where otp: "otp_by_id_user d i (u_id usr) = Some otp"
    unfolding confirmar_operacion_view_def Let_def
    by (cases "otp_by_id_user d i (u_id usr)") auto
  from v op i i0 usr m c otp have rest: "\<not> o_used otp"
    "o_code otp = strip (form_get_default f ''code'' [])" "\<not> otp_is_expired E now otp"
    unfolding confirmar_operacion_view_def Let_def
    by (simp_all split: if_splits)
  have "bound_challenge d s = Some (usr, op, otp)"
    using l op i i0 usr otp by (simp add: bound_challenge_def)
  with m c rest show ?thesis by (simp add: submitted_code_def)
qed






lemmas py_defs = strip_def is_space_def lower_def lower_char_def upper_chars_def lower_chars_def
  or_str_def form_get_def form_get_default_def payload_get_def payload_get_default_def
  digit_char_def generate_otp_code_def timedelta_minutes_def max_age_def falsy_id_def

lemmas store_defs = next_id_def user_by_id_def user_by_email_def account_by_id_user_def
  first_account_of_user_def otp_by_id_user_def sub_balance_def add_balance_def
  flush_balances_def set_otp_used_def
  set_email_verified_def new_otp_def add_otp_def new_account_def add_account_def new_user_def
  empty_db_def empty_session_def reply_def final_db_def session_user_def

lemmas sample_defs = sample_env_def decimal_literal_def nat_literal_def digit_value_def
  quantize_nearest_def floor_rat_numeral floor_rat_minus_numeral

lemmas finance_defs = BANK_TYPES_def login_required_def clear_pending_operation_def
  start_operation_otp_def execute_create_account_def transfer_amount_def apply_transfer_def
  execute_transfer_internal_def execute_transfer_external_def otp_is_expired_def
  run_pending_operation_def confirmar_operacion_view_def confirmar_operacion_def
  cancelar_operacion_def reenviar_otp_operacion_view_def reenviar_otp_operacion_def
  create_account_view_def create_account_def transfer_internal_view_def transfer_internal_def
  transfer_external_view_def transfer_external_def

lemma staged_internal_eval:
  "staged_internal =
     \<lparr>commits = [example_store\<lparr>otp_codes :=
                  [\<lparr>o_id = 1, o_user_id = 1, o_code = ''123456'', o_created_at = 0,
                    o_used = False\<rparr>]\<rparr>],
      sess = \<lparr>s_user_id = Some 1, s_pending_otp_user_id = None,
         s_pending_operation =
           Some \<lparr>op_name = ''transfer_internal'',
               op_payload =
                 [(''from_account_id'', Some ''1''), (''to_account_id'', Some ''2''),
                  (''amount'', Some ''30.00''),
                  (''description'', Some ''Transferencia interna'')],
               op_created_at = 0\<rparr>,
         s_pending_operation_otp_id = Some 1\<rparr>,
      resp = Redirect Finance_confirmar_operacion (Some Otp_sent_transfer_internal)\<rparr>"
  unfolding staged_internal_def example_store_def example_session_def
  by (simp add: py_defs store_defs sample_defs finance_defs Let_def)



lemma confirmed_internal_eval:
  "resp confirmed_internal = Redirect Finance_dashboard (Some Transfer_internal_done)"
  unfolding confirmed_internal_def staged_internal_eval example_store_def
  by (simp add: py_defs store_defs sample_defs finance_defs Let_def)











section \<open>The ledger invariant\<close>








lemma otp_is_expired_mono:
  "otp_is_expired E now otp \<Longrightarrow> now \<le> now' \<Longrightarrow> otp_is_expired E now' otp"
  by (simp add: otp_is_expired_def)

lemma confirmar_operacion_expired:
  assumes b: "bound_challenge d s = Some (usr, op, otp)"
    and code: "submitted_code f = o_code otp" "o_code otp \<noteq> []"
    and unused: "\<not> o_used otp"
    and old: "otp_is_expired E now otp"
  shows "confirmar_operacion E now POST f d s =
           \<lparr>commits = [], sess = s,
            resp = Redirect Finance_confirmar_operacion (Some Otp_expired_resend)\<rparr>"
  using bound_challenge_SomeD [OF b] code unused old
  unfolding confirmar_operacion_def login_required_def confirmar_operacion_view_def
    submitted_code_def Let_def
  by (simp add: reply_def)

text \<open>
  C3 (as amended). When a confirmation request submits the correct code for the bound
  challenge but the challenge is older than \<open>max_age\<close>, the orchestrator answers with the
  expiry failure ("resend it to continue") and changes nothing: nothing is committed, the
  challenge stays unused and the pending operation stays in the session, bound to the same
  challenge. The same request at any later time gets the same answer, so a resend is
  needed to retry.
\<close>

theorem expired_code_keeps_descriptor:
  assumes b: "bound_challenge d s = Some (usr, op, otp)"
    and code: "submitted_code f = o_code otp" "o_code otp \<noteq> []"
    and unused: "\<not> o_used otp"
    and old: "otp_is_expired E now otp"
    and later: "now \<le> now'"
  shows "confirmar_operacion E now POST f d s =
           \<lparr>commits = [], sess = s,
            resp = Redirect Finance_confirmar_operacion (Some Otp_expired_resend)\<rparr> \<and>
         s_pending_operation (sess (confirmar_operacion E now POST f d s)) = Some op \<and>
         s_pending_operation_otp_id (sess (confirmar_operacion E now POST f d s)) =
           Some (o_id otp) \<and>
         final_db d (confirmar_operacion E now POST f d s) = d \<and>
         confirmar_operacion E now' POST f d s = confirmar_operacion E now POST f d s"
  using confirmar_operacion_expired [OF b code unused old]
    confirmar_operacion_expired [OF b code unused otp_is_expired_mono [OF old later]]
    bound_challenge_SomeD [OF b]
  by (simp add: final_db_def)

lemmas example_defs = example_store_def example_session_def example_user_def
  example_challenge_def example_op_internal_def example_op_external_def

lemma staged_internal_bound:
  "bound_challenge (final_db example_store staged_internal) (sess staged_internal) =
     Some (example_user, example_op_internal, example_challenge)"
  unfolding staged_internal_eval bound_challenge_def example_defs
  by (simp add: py_defs store_defs)

lemma submitted_code_example:
  "submitted_code [(''code'', ''123456'')] = o_code example_challenge"
  "o_code example_challenge \<noteq> []" "\<not> o_used example_challenge"
  by (simp_all add: submitted_code_def example_challenge_def py_defs)

lemma example_challenge_expiry:
  "otp_is_expired sample_env 360000000 example_challenge"
  "\<not> otp_is_expired sample_env 3000000 example_challenge"
  by (simp_all add: otp_is_expired_def example_challenge_def py_defs sample_env_def)

theorem expired_code_keeps_descriptor_witness:
  "otp_is_expired sample_env 360000000 example_challenge \<and>
   resp expired_confirmation = Redirect Finance_confirmar_operacion (Some Otp_expired_resend) \<and>
   commits expired_confirmation = [] \<and>
   sess expired_confirmation = sess staged_internal"
  using expired_code_keeps_descriptor [OF staged_internal_bound submitted_code_example
      example_challenge_expiry(1), of 360000000]
    example_challenge_expiry(1)
  by (simp add: expired_confirmation_def)

text \<open>
  The specification has the descriptor cleared on expiry. It is not: here
  the challenge of the staged example transfer is six minutes old, the code is the right
  one, and the session after the request still holds the operation.
\<close>

theorem expired_code_clears_descriptor_counterexample:
  "bound_challenge (final_db example_store staged_internal) (sess staged_internal) =
     Some (example_user, example_op_internal, example_challenge) \<and>
   submitted_code [(''code'', ''123456'')] = o_code example_challenge \<and>
   \<not> o_used example_challenge \<and>
   otp_is_expired sample_env 360000000 example_challenge \<and>
   resp expired_confirmation = Redirect Finance_confirmar_operacion (Some Otp_expired_resend) \<and>
   s_pending_operation (sess expired_confirmation) = Some example_op_internal \<and>
   sess expired_confirmation \<noteq> clear_pending_operation (sess staged_internal)"
proof -
  have e: "expired_confirmation =
      \<lparr>commits = [], sess = sess staged_internal,
       resp = Redirect Finance_confirmar_operacion (Some Otp_expired_resend)\<rparr>"
    unfolding expired_confirmation_def
    by (rule confirmar_operacion_expired [OF staged_internal_bound submitted_code_example
          example_challenge_expiry(1)])
  have p: "s_pending_operation (sess staged_internal) = Some example_op_internal"
    using bound_challenge_SomeD(2) [OF staged_internal_bound] .
  have "s_pending_operation (clear_pending_operation (sess staged_internal)) = None"
    by (simp add: clear_pending_operation_def)
  with p have "sess staged_internal \<noteq> clear_pending_operation (sess staged_internal)"
    by (metis option.distinct(1))
  moreover have "resp expired_confirmation =
      Redirect Finance_confirmar_operacion (Some Otp_expired_resend)"
    "sess expired_confirmation = sess staged_internal"
    by (simp_all add: e)
  ultimately show ?thesis
    using p staged_internal_bound submitted_code_example example_challenge_expiry(1) by simp
qed

lemma find_otp_map:
  assumes "\<And>c. o_id (g c) = o_id c" "\<And>c. o_user_id (g c) = o_user_id c"
  shows "find (\<lambda>c. o_id c = i \<and> o_user_id c = u) (map g xs) =
           map_option g (find (\<lambda>c. o_id c = i \<and> o_user_id c = u) xs)"
  by (induction xs) (simp_all add: assms)

lemma otp_by_id_user_set_used:
  assumes "otp_by_id_user d i u = Some otp"
  shows "otp_by_id_user (set_otp_used d i) i u = Some (otp\<lparr>o_used := True\<rparr>)"
proof -
  have "o_id otp = i" using assms by (auto simp: otp_by_id_user_def dest: find_mem)
  then show ?thesis
    using assms by (simp add: otp_by_id_user_def set_otp_used_def find_otp_map)
qed

lemma execute_otp_codes:
  "d' \<in> set (fst (execute_create_account E now d usr bt name raw)) \<longrightarrow> otp_codes d' = otp_codes d"
  "d' \<in> set (fst (execute_transfer_internal E now d usr from_id to_id araw desc)) \<longrightarrow>
     otp_codes d' = otp_codes d"
  "d' \<in> set (fst (execute_transfer_external E now d usr from_id email araw desc)) \<longrightarrow>
     otp_codes d' = otp_codes d"
  unfolding execute_create_account_def execute_transfer_internal_def
    execute_transfer_external_def Let_def
  by (simp_all split: option.split del: add_transactions.simps)

lemma run_pending_operation_otp_codes:
  "d' \<in> set (fst (run_pending_operation E now d usr op)) \<Longrightarrow> otp_codes d' = otp_codes d"
  unfolding run_pending_operation_def Let_def
  using execute_otp_codes by (auto split: if_splits)

lemma execute_failure:
  "\<not> operation_done (snd (execute_create_account E now d usr bt name raw)) \<longrightarrow>
     fst (execute_create_account E now d usr bt name raw) = []"
  "\<not> operation_done (snd (execute_transfer_internal E now d usr from_id to_id araw desc)) \<longrightarrow>
     fst (execute_transfer_internal E now d usr from_id to_id araw desc) = []"
  "\<not> operation_done (snd (execute_transfer_external E now d usr from_id email araw desc)) \<longrightarrow>
     fst (execute_transfer_external E now d usr from_id email araw desc) = []"
  unfolding execute_create_account_def execute_transfer_internal_def
    execute_transfer_external_def Let_def operation_done_def
  by (simp_all split: option.split)

lemma run_pending_operation_failure:
  "\<not> operation_done (snd (run_pending_operation E now d usr op)) \<Longrightarrow>
     fst (run_pending_operation E now d usr op) = []"
  unfolding run_pending_operation_def Let_def
  using execute_failure by (auto split: if_splits)





lemma submitted_code_example_spaces:
  "submitted_code [(''code'', '' 123456'')] = o_code example_challenge"
  by (simp add: submitted_code_def example_challenge_def py_defs)


lemma execute_success:
  "operation_done (snd (execute_create_account E now d usr bt name raw)) \<longrightarrow>
     length (fst (execute_create_account E now d usr bt name raw)) = 1"
  "operation_done (snd (execute_transfer_internal E now d usr from_id to_id araw desc)) \<longrightarrow>
     length (fst (execute_transfer_internal E now d usr from_id to_id araw desc)) = 1"
  "operation_done (snd (execute_transfer_external E now d usr from_id email araw desc)) \<longrightarrow>
     length (fst (execute_transfer_external E now d usr from_id email araw desc)) = 1"
  unfolding execute_create_account_def execute_transfer_internal_def
    execute_transfer_external_def Let_def operation_done_def
  by (simp_all split: option.split)

lemma run_pending_operation_success:
  "operation_done (snd (run_pending_operation E now d usr op)) \<Longrightarrow>
     length (fst (run_pending_operation E now d usr op)) = 1"
  unfolding run_pending_operation_def Let_def
  using execute_success by (auto split: if_splits simp: operation_done_def)

text \<open>
  C6 (as amended). On successful validation of the code at operation confirmation, the
  \<open>used\<close> flag of the challenge is committed on its own, before the operation runs: the
  first commit of the request marks the challenge used and leaves accounts and
  transactions as they were. The effects of the operation follow in one further commit
  when the operation completes, and in none when it fails. The challenge is used in every
  state that the request commits.
\<close>

theorem used_flag_committed_first:
  assumes b: "bound_challenge d s = Some (usr, op, otp)"
    and code: "submitted_code f = o_code otp" "o_code otp \<noteq> []"
    and fresh: "\<not> o_used otp" "\<not> otp_is_expired E now otp"
  shows "\<exists>cs. commits (confirmar_operacion E now POST f d s) = set_otp_used d (o_id otp) # cs \<and>
           length cs = (if operation_done (resp (confirmar_operacion E now POST f d s)) then 1 else 0) \<and>
           accounts (set_otp_used d (o_id otp)) = accounts d \<and>
           transactions (set_otp_used d (o_id otp)) = transactions d \<and>
           list_all (\<lambda>d'. otp_by_id_user d' (o_id otp) (u_id usr) = Some (otp\<lparr>o_used := True\<rparr>))
             (commits (confirmar_operacion E now POST f d s))"
proof -
  let ?d1 = "set_otp_used d (o_id otp)"
  let ?R = "confirmar_operacion E now POST f d s"
  let ?cs = "fst (run_pending_operation E now ?d1 usr op)"
  have R: "?R = \<lparr>commits = ?d1 # ?cs, sess = clear_pending_operation s,
                 resp = snd (run_pending_operation E now ?d1 usr op)\<rparr>"
    by (rule confirmar_operacion_valid [OF b code fresh])
  have len: "length ?cs = (if operation_done (resp ?R) then 1 else 0)"
    using run_pending_operation_success [of E now ?d1 usr op]
      run_pending_operation_failure [of E now ?d1 usr op]
    by (simp add: R)
  have used: "otp_by_id_user ?d1 (o_id otp) (u_id usr) = Some (otp\<lparr>o_used := True\<rparr>)"
    by (rule otp_by_id_user_set_used [OF bound_challenge_SomeD(6) [OF b]])
  have "otp_by_id_user d' (o_id otp) (u_id usr) = Some (otp\<lparr>o_used := True\<rparr>)"
    if "d' \<in> set ?cs" for d'
    using run_pending_operation_otp_codes [OF that] used by (simp add: otp_by_id_user_def)
  then have all: "list_all (\<lambda>d'. otp_by_id_user d' (o_id otp) (u_id usr) = Some (otp\<lparr>o_used := True\<rparr>))
      (commits ?R)"
    using used by (simp add: R list_all_iff)
  show ?thesis
    apply (rule exI [of _ ?cs])
    using len all by (simp add: R)
qed

theorem used_flag_committed_first_witness:
  "bound_challenge (final_db example_store staged_internal) (sess staged_internal) =
     Some (example_user, example_op_internal, example_challenge) \<and>
   \<not> otp_is_expired sample_env 60000000 example_challenge \<and>
   length (commits confirmed_internal) = 2 \<and>
   list_all (\<lambda>d'. otp_by_id_user d' 1 1 = Some (example_challenge\<lparr>o_used := True\<rparr>))
     (commits confirmed_internal)"
proof -
  have x: "\<not> otp_is_expired sample_env 60000000 example_challenge"
    by (simp add: otp_is_expired_def example_challenge_def py_defs sample_env_def)
  have i: "o_id example_challenge = 1" "u_id example_user = 1"
    by (simp_all add: example_defs)
  have "operation_done (resp confirmed_internal)"
    by (simp add: confirmed_internal_eval operation_done_def)
  with used_flag_committed_first [OF staged_internal_bound submitted_code_example_spaces
      submitted_code_example(2,3) x]
  show ?thesis
    using staged_internal_bound x by (auto simp: confirmed_internal_def i)
qed

text \<open>
  The specification has no state observable in which the challenge is used
  and the operation is not applied. The first state committed by the example confirmation
  is such a state: the challenge is used, the balances are still 50, 0 and 10, and the
  two transactions of the transfer appear only in the second commit.
\<close>

theorem used_flag_atomic_counterexample:
  "length (commits confirmed_internal) = 2 \<and>
   map o_used (otp_codes (hd (commits confirmed_internal))) = [True] \<and>
   accounts (hd (commits confirmed_internal)) = accounts example_store \<and>
   transactions (hd (commits confirmed_internal)) = transactions example_store \<and>
   map a_balance (accounts example_store) = [50, 0, 10] \<and>
   map a_balance (accounts (last (commits confirmed_internal))) = [20, 30, 10] \<and>
   length (transactions (last (commits confirmed_internal))) =
     length (transactions example_store) + 2"
  unfolding confirmed_internal_def staged_internal_eval example_defs
  by (simp add: py_defs store_defs sample_defs finance_defs Let_def)

section \<open>Staging and confirmation read the same strings\<close>

lemma dropWhile_fixed: "xs = [] \<or> \<not> P (hd xs) \<Longrightarrow> dropWhile P xs = xs"
  by (cases xs) auto

lemma strip_idem: "strip (strip s) = strip s"
proof -
  let ?t = "dropWhile is_space s"
  let ?u = "rev (dropWhile is_space (rev ?t))"
  have t: "?t = [] \<or> \<not> is_space (hd ?t)"
    using hd_dropWhile [of is_space s] by blast
  have pre: "?t = ?u @ rev (takeWhile is_space (rev ?t))"
  proof -
    have "rev ?t = takeWhile is_space (rev ?t) @ dropWhile is_space (rev ?t)" by simp
    then have "rev (rev ?t) = rev (takeWhile is_space (rev ?t) @ dropWhile is_space (rev ?t))"
      by (rule arg_cong)
    then show ?thesis by (simp del: takeWhile_dropWhile_id)
  qed
  have u_hd: "?u = [] \<or> \<not> is_space (hd ?u)"
  proof (cases "?u = []")
    case True then show ?thesis by blast
  next
    case False
    then have "hd ?t = hd ?u" using pre by (metis hd_append2)
    moreover have "?t \<noteq> []"
    proof
      assume "?t = []"
      then have "?u = []" by (simp only: rev.simps(1) dropWhile.simps(1))
      with False show False ..
    qed
    ultimately show ?thesis using t by auto
  qed
  have u_last: "rev ?u = [] \<or> \<not> is_space (hd (rev ?u))"
    using hd_dropWhile [of is_space "rev ?t"] by auto
  have "dropWhile is_space ?u = ?u" by (rule dropWhile_fixed [where P = is_space, OF u_hd])
  moreover have "dropWhile is_space (rev ?u) = rev ?u" by (rule dropWhile_fixed [where P = is_space, OF u_last])
  ultimately have "rev (dropWhile is_space (rev (dropWhile is_space ?u))) = ?u"
    by (simp only: rev_rev_ident)
  then show ?thesis by (simp only: strip_def)
qed

lemma table_lookup:
  "map_of (zip upper_chars lower_chars) c = Some l \<Longrightarrow> c \<in> set upper_chars \<and> l \<in> set lower_chars"
  by (auto dest!: map_of_SomeD dest: set_zip_leftD set_zip_rightD)

lemma upper_not_space: "c \<in> set upper_chars \<Longrightarrow> \<not> is_space c"
  by (auto simp: upper_chars_def is_space_def)

lemma lower_not_space: "c \<in> set lower_chars \<Longrightarrow> \<not> is_space c"
  by (auto simp: lower_chars_def is_space_def)

lemma lower_not_upper: "c \<in> set lower_chars \<Longrightarrow> c \<notin> set upper_chars"
  by (auto simp: lower_chars_def upper_chars_def)

lemma lower_char_fixed: "c \<in> set lower_chars \<Longrightarrow> lower_char c = c"
proof -
  assume "c \<in> set lower_chars"
  then have "c \<notin> set upper_chars" by (rule lower_not_upper)
  moreover have "length upper_chars = length lower_chars"
    by (simp add: upper_chars_def lower_chars_def)
  ultimately have "map_of (zip upper_chars lower_chars) c = None"
    by simp
  then show ?thesis by (simp add: lower_char_def)
qed

lemma lower_char_idem: "lower_char (lower_char c) = lower_char c"
  by (cases "map_of (zip upper_chars lower_chars) c")
    (auto simp: lower_char_def dest!: table_lookup dest: lower_char_fixed [unfolded lower_char_def])

lemma is_space_lower_char: "is_space (lower_char c) = is_space c"
  by (cases "map_of (zip upper_chars lower_chars) c")
    (auto simp: lower_char_def dest!: table_lookup dest: upper_not_space lower_not_space)

lemma lower_idem: "lower (lower s) = lower s"
  by (simp add: lower_def lower_char_idem)

lemma strip_lower: "strip (lower s) = lower (strip s)"
proof -
  have c: "is_space \<circ> lower_char = is_space" by (rule ext) (simp add: is_space_lower_char)
  have dw: "dropWhile is_space (map lower_char xs) = map lower_char (dropWhile is_space xs)"
    for xs by (simp add: dropWhile_map c)
  show ?thesis
    by (simp add: strip_def lower_def rev_map dw)
qed

lemma strip_lower_idem: "strip (lower (strip (lower s))) = strip (lower s)"
  by (simp add: strip_lower strip_idem lower_idem)


lemma or_str_Some [simp]: "or_str (Some s) [] = s"
  by (simp add: or_str_def)

lemma transfer_internal_staged:
  "resp (transfer_internal E now0 r f0 d0 s0) = Redirect Finance_confirmar_operacion fl \<longrightarrow>
     s_pending_operation (sess (transfer_internal E now0 r f0 d0 s0)) =
       Some \<lparr>op_name = ''transfer_internal'',
             op_payload =
               [(''from_account_id'', form_get f0 ''from_account_id''),
                (''to_account_id'', form_get f0 ''to_account_id''),
                (''amount'', Some (strip (form_get_default f0 ''amount'' []))),
                (''description'',
                 Some (or_str (Some (strip (form_get_default f0 ''description'' [])))
                         ''Transferencia interna''))],
             op_created_at = now0\<rparr> \<and>
     form_get f0 ''from_account_id'' \<noteq> form_get f0 ''to_account_id''"
  unfolding transfer_internal_def login_required_def transfer_internal_view_def
    start_operation_otp_def Let_def
  by (simp split: option.split)

lemma transfer_external_staged:
  "resp (transfer_external E now0 r f0 d0 s0) = Redirect Finance_confirmar_operacion fl \<longrightarrow>
     s_pending_operation (sess (transfer_external E now0 r f0 d0 s0)) =
       Some \<lparr>op_name = ''transfer_external'',
             op_payload =
               [(''from_account_id'', form_get f0 ''from_account_id''),
                (''recipient_email'',
                 Some (strip (lower (form_get_default f0 ''recipient_email'' [])))),
                (''amount'', Some (strip (form_get_default f0 ''amount'' []))),
                (''description'',
                 Some (or_str (Some (strip (form_get_default f0 ''description'' [])))
                         ''Transferencia a otro usuario''))],
             op_created_at = now0\<rparr> \<and>
     strip (lower (form_get_default f0 ''recipient_email'' [])) \<noteq> []"
  unfolding transfer_external_def login_required_def transfer_external_view_def
    start_operation_otp_def Let_def
  by (simp split: option.split)

lemma account_by_id_user_set_otp_used [simp]:
  "account_by_id_user E (set_otp_used d i) raw uid = account_by_id_user E d raw uid"
  by (simp add: account_by_id_user_def split: option.split)

lemma staged_amount:
  assumes "Decimal E (strip x) = Some amount" "0 < amount"
  shows "transfer_amount E (Some (strip x)) = Some amount"
  using assms by (simp add: transfer_amount_def strip_idem)

lemma staged_amount_pos:
  "resp (transfer_internal E now0 r f0 d0 s0) = Redirect Finance_confirmar_operacion fl \<longrightarrow>
   Decimal E (strip (form_get_default f0 ''amount'' [])) = Some amount \<longrightarrow> 0 < amount"
  "resp (transfer_external E now0 r f0 d0 s0) = Redirect Finance_confirmar_operacion fl \<longrightarrow>
   Decimal E (strip (form_get_default f0 ''amount'' [])) = Some amount \<longrightarrow> 0 < amount"
  unfolding transfer_internal_def login_required_def transfer_internal_view_def
    transfer_external_def transfer_external_view_def start_operation_otp_def Let_def
  by (simp_all split: option.split)

lemma run_staged_internal_insufficient:
  assumes op: "op = \<lparr>op_name = ''transfer_internal'',
             op_payload =
               [(''from_account_id'', from_id), (''to_account_id'', to_id),
                (''amount'', Some (strip x)), (''description'', Some desc)],
             op_created_at = now0\<rparr>"
    and ne: "from_id \<noteq> to_id"
    and amt: "Decimal E (strip x) = Some amount" "0 < amount"
    and src: "account_by_id_user E d from_id (u_id usr) = Some from_acc"
    and dst: "account_by_id_user E d to_id (u_id usr) \<noteq> None"
    and low: "a_balance from_acc < amount"
  shows "run_pending_operation E now d usr op =
           ([], Redirect Finance_dashboard (Some Insufficient_funds))"
  using ne src dst low staged_amount [OF amt]
  by (auto simp: op run_pending_operation_def Let_def payload_get_def payload_get_default_def
      execute_transfer_internal_def)

lemma run_staged_external_insufficient:
  assumes op: "op = \<lparr>op_name = ''transfer_external'',
             op_payload =
               [(''from_account_id'', from_id),
                (''recipient_email'', Some (strip (lower y))),
                (''amount'', Some (strip x)), (''description'', Some desc)],
             op_created_at = now0\<rparr>"
    and ne: "strip (lower y) \<noteq> []"
    and amt: "Decimal E (strip x) = Some amount" "0 < amount"
    and src: "account_by_id_user E d from_id (u_id usr) = Some from_acc"
    and low: "a_balance from_acc < amount"
  shows "run_pending_operation E now d usr op =
           ([], Redirect Finance_dashboard (Some Insufficient_funds))"
  using ne src low staged_amount [OF amt]
  by (simp add: op run_pending_operation_def Let_def payload_get_def payload_get_default_def
      execute_transfer_external_def strip_lower_idem)

text \<open>
  C7. For every staged transfer, internal or external: if, when the confirmation arrives
  with the valid code of the bound challenge, the source account (which still resolves
  for the user, as does the destination of an internal transfer) holds less than the
  staged amount, the confirmation fails with the insufficient-funds message and leaves
  every account and the transaction history as they were, although the check at staging
  had passed.
\<close>

theorem confirmation_rechecks_funds:
  assumes st: "st = transfer_internal E now0 r f0 d0 s0 \<or> st = transfer_external E now0 r f0 d0 s0"
    and staged: "resp st = Redirect Finance_confirmar_operacion fl"
    and b: "bound_challenge d (sess st) = Some (usr, op, otp)"
    and code: "submitted_code f = o_code otp" "o_code otp \<noteq> []"
    and fresh: "\<not> o_used otp" "\<not> otp_is_expired E now otp"
    and amt: "Decimal E (strip (form_get_default f0 ''amount'' [])) = Some amount"
    and src: "account_by_id_user E d (form_get f0 ''from_account_id'') (u_id usr) = Some from_acc"
    and dst: "op_name op = ''transfer_internal'' \<longrightarrow>
              account_by_id_user E d (form_get f0 ''to_account_id'') (u_id usr) \<noteq> None"
    and low: "a_balance from_acc < amount"
  shows "resp (confirmar_operacion E now POST f d (sess st)) =
           Redirect Finance_dashboard (Some Insufficient_funds) \<and>
         accounts (final_db d (confirmar_operacion E now POST f d (sess st))) = accounts d \<and>
         transactions (final_db d (confirmar_operacion E now POST f d (sess st))) =
           transactions d"
proof -
  let ?d1 = "set_otp_used d (o_id otp)"
  let ?R = "confirmar_operacion E now POST f d (sess st)"
  have R: "?R = \<lparr>commits = ?d1 # fst (run_pending_operation E now ?d1 usr op),
                 sess = clear_pending_operation (sess st),
                 resp = snd (run_pending_operation E now ?d1 usr op)\<rparr>"
    by (rule confirmar_operacion_valid [OF b code fresh])
  have pend: "s_pending_operation (sess st) = Some op"
    by (rule bound_challenge_SomeD(2) [OF b])
  have run: "run_pending_operation E now ?d1 usr op =
      ([], Redirect Finance_dashboard (Some Insufficient_funds))"
    using st
  proof
    assume i: "st = transfer_internal E now0 r f0 d0 s0"
    from staged have s: "resp (transfer_internal E now0 r f0 d0 s0) =
        Redirect Finance_confirmar_operacion fl" by (simp add: i)
    note k = transfer_internal_staged [rule_format, OF s]
    from k pend have op: "op = \<lparr>op_name = ''transfer_internal'',
             op_payload =
               [(''from_account_id'', form_get f0 ''from_account_id''),
                (''to_account_id'', form_get f0 ''to_account_id''),
                (''amount'', Some (strip (form_get_default f0 ''amount'' []))),
                (''description'',
                 Some (or_str (Some (strip (form_get_default f0 ''description'' [])))
                         ''Transferencia interna''))],
             op_created_at = now0\<rparr>" by (simp add: i)
    then have "op_name op = ''transfer_internal''" by simp
    with dst have dst': "account_by_id_user E ?d1 (form_get f0 ''to_account_id'') (u_id usr) \<noteq> None"
      by simp
    show ?thesis
      by (rule run_staged_internal_insufficient [OF op _ amt
            staged_amount_pos(1) [rule_format, OF s amt] _ dst' low])
        (use k src in simp_all)
  next
    assume e: "st = transfer_external E now0 r f0 d0 s0"
    from staged have s: "resp (transfer_external E now0 r f0 d0 s0) =
        Redirect Finance_confirmar_operacion fl" by (simp add: e)
    note k = transfer_external_staged [rule_format, OF s]
    from k pend have op: "op = \<lparr>op_name = ''transfer_external'',
             op_payload =
               [(''from_account_id'', form_get f0 ''from_account_id''),
                (''recipient_email'',
                 Some (strip (lower (form_get_default f0 ''recipient_email'' [])))),
                (''amount'', Some (strip (form_get_default f0 ''amount'' []))),
                (''description'',
                 Some (or_str (Some (strip (form_get_default f0 ''description'' [])))
                         ''Transferencia a otro usuario''))],
             op_created_at = now0\<rparr>" by (simp add: e)
    show ?thesis
      by (rule run_staged_external_insufficient [OF op _ amt
            staged_amount_pos(2) [rule_format, OF s amt] _ low])
        (use k src in simp_all)
  qed
  show ?thesis
    by (simp add: R run final_db_def)
qed


lemma after_drain_internal_bound:
  "bound_challenge (after_drain (final_db example_store staged_internal)) (sess staged_internal) =
     Some (example_user, example_op_internal, example_challenge)"
  unfolding after_drain_def drain_confirmed_def drain_staged_def staged_internal_eval
    bound_challenge_def example_defs
  by (simp add: py_defs store_defs sample_defs finance_defs Let_def)

lemma after_drain_internal_accounts:
  "accounts (after_drain (final_db example_store staged_internal)) =
     [\<lparr>a_id = 1, a_user_id = 1, a_bank_type = ''NEQUI'', a_name = ''A'', a_balance = 10\<rparr>,
      \<lparr>a_id = 2, a_user_id = 1, a_bank_type = ''NU'', a_name = ''B'', a_balance = 40\<rparr>,
      \<lparr>a_id = 3, a_user_id = 2, a_bank_type = ''OTRO'', a_name = ''C'', a_balance = 10\<rparr>]"
  unfolding after_drain_def drain_confirmed_def drain_staged_def staged_internal_eval
    example_defs
  by (simp add: py_defs store_defs sample_defs finance_defs Let_def)

theorem confirmation_rechecks_funds_witness:
  "resp staged_internal = Redirect Finance_confirmar_operacion (Some Otp_sent_transfer_internal) \<and>
   balance_of example_store 1 = 50 \<and>
   balance_of (after_drain (final_db example_store staged_internal)) 1 = 10 \<and>
   resp late_internal = Redirect Finance_dashboard (Some Insufficient_funds) \<and>
   accounts (final_db (after_drain (final_db example_store staged_internal)) late_internal) =
     accounts (after_drain (final_db example_store staged_internal))"
proof -
  let ?f0 = "[(''from_account_id'', ''1''), (''to_account_id'', ''2''), (''amount'', ''30.00'')]"
  let ?d = "after_drain (final_db example_store staged_internal)"
  have st: "staged_internal = transfer_internal sample_env 0 123456 ?f0 example_store example_session
      \<or> staged_internal = transfer_external sample_env 0 123456 ?f0 example_store example_session"
    by (simp add: staged_internal_def)
  have staged: "resp staged_internal =
      Redirect Finance_confirmar_operacion (Some Otp_sent_transfer_internal)"
    by (simp add: staged_internal_eval)
  have amt: "Decimal sample_env (strip (form_get_default ?f0 ''amount'' [])) = Some 30"
    by (simp add: py_defs sample_defs)
  have src: "account_by_id_user sample_env ?d (form_get ?f0 ''from_account_id'')
      (u_id example_user) =
      Some \<lparr>a_id = 1, a_user_id = 1, a_bank_type = ''NEQUI'', a_name = ''A'', a_balance = 10\<rparr>"
    by (simp add: account_by_id_user_def after_drain_internal_accounts py_defs sample_defs
        example_user_def)
  have dst: "op_name example_op_internal = ''transfer_internal'' \<longrightarrow>
      account_by_id_user sample_env ?d (form_get ?f0 ''to_account_id'') (u_id example_user) \<noteq> None"
    by (simp add: account_by_id_user_def after_drain_internal_accounts py_defs sample_defs
        example_user_def)
  have low: "a_balance \<lparr>a_id = 1, a_user_id = 1, a_bank_type = ''NEQUI'', a_name = ''A'',
      a_balance = 10\<rparr> < (30::rat)" by simp
  have b0: "balance_of example_store 1 = 50"
    by (simp add: balance_of_def example_store_def)
  have b1: "balance_of ?d 1 = 10"
    by (simp add: balance_of_def after_drain_internal_accounts)
  from confirmation_rechecks_funds [OF st staged after_drain_internal_bound
      submitted_code_example example_challenge_expiry(2) amt src dst low]
  show ?thesis
    using staged b0 b1 by (simp add: late_internal_def)
qed

section \<open>Resending the code\<close>

lemma find_append:
  "find P (xs @ ys) = (case find P xs of None \<Rightarrow> find P ys | Some x \<Rightarrow> Some x)"
  by (induction xs) simp_all

lemma otp_by_id_user_mem:
  "otp_by_id_user d i u = Some c \<Longrightarrow> c \<in> set (otp_codes d) \<and> o_id c = i \<and> o_user_id c = u"
  by (auto simp: otp_by_id_user_def dest: find_mem)

lemma new_otp_sel [simp]:
  "o_id (new_otp d u code now) = next_id (map o_id (otp_codes d))"
  "o_user_id (new_otp d u code now) = u"
  "o_code (new_otp d u code now) = code"
  "o_created_at (new_otp d u code now) = now"
  "o_used (new_otp d u code now) = False"
  by (simp_all add: new_otp_def)

lemma otp_by_id_user_add_old:
  "otp_by_id_user d i u = Some c \<Longrightarrow> otp_by_id_user (add_otp d c') i u = Some c"
  by (simp add: otp_by_id_user_def find_append)

lemma otp_by_id_user_add_new:
  "otp_by_id_user (add_otp d (new_otp d u code now)) (next_id (map o_id (otp_codes d))) u =
     Some (new_otp d u code now)"
proof -
  have "o_id c \<noteq> next_id (map o_id (otp_codes d))" if "c \<in> set (otp_codes d)" for c
    using next_id_fresh [of "o_id c" "map o_id (otp_codes d)"] that by auto
  then have "find (\<lambda>c. o_id c = next_id (map o_id (otp_codes d)) \<and> o_user_id c = u) (otp_codes d) = None"
    by (auto simp: find_None_iff)
  then show ?thesis by (simp add: otp_by_id_user_def find_append)
qed

lemma session_user_add_otp [simp]: "session_user (add_otp d c) s = session_user d s"
  by (simp add: session_user_def user_by_id_def split: option.split)

lemma session_user_rebound [simp]:
  "session_user d (s\<lparr>s_pending_operation_otp_id := x\<rparr>) = session_user d s"
  by (simp add: session_user_def)

lemma reenviar_otp_operacion_bound:
  assumes b: "bound_challenge d s = Some (usr, op, old)"
  shows "reenviar_otp_operacion now r d s =
           \<lparr>commits = [add_otp d (new_otp d (u_id usr) (generate_otp_code r) now)],
            sess = s\<lparr>s_pending_operation_otp_id := Some (next_id (map o_id (otp_codes d)))\<rparr>,
            resp = Redirect Finance_confirmar_operacion (Some Otp_resent)\<rparr>"
  using bound_challenge_SomeD [OF b]
  by (simp add: reenviar_otp_operacion_def login_required_def reenviar_otp_operacion_view_def
      Let_def)

text \<open>
  C8 (as amended). After a resend the descriptor is bound to the newly issued challenge,
  whose id differs from the id of the challenge bound before; the old challenge stays in
  the store as it was (unused if it was unused) and is no longer the one consulted. A
  confirmation then passes the code check only if the submitted code equals the code of
  the new challenge: the code of the old challenge confirms the operation only when the
  random draw gave the new challenge the same code.
\<close>

theorem resend_rebinds_descriptor:
  assumes b: "bound_challenge d s = Some (usr, op, old)"
  shows "resp (reenviar_otp_operacion now r d s) =
           Redirect Finance_confirmar_operacion (Some Otp_resent) \<and>
         bound_challenge (final_db d (reenviar_otp_operacion now r d s))
             (sess (reenviar_otp_operacion now r d s)) =
           Some (usr, op, new_otp d (u_id usr) (generate_otp_code r) now) \<and>
         o_id (new_otp d (u_id usr) (generate_otp_code r) now) \<noteq> o_id old \<and>
         otp_by_id_user (final_db d (reenviar_otp_operacion now r d s)) (o_id old) (u_id usr) =
           Some old \<and>
         (\<forall>now' meth f.
            commits (confirmar_operacion E now' meth f
                       (final_db d (reenviar_otp_operacion now r d s))
                       (sess (reenviar_otp_operacion now r d s))) \<noteq> [] \<longrightarrow>
            submitted_code f = generate_otp_code r)"
proof -
  let ?new = "new_otp d (u_id usr) (generate_otp_code r) now"
  let ?R = "reenviar_otp_operacion now r d s"
  let ?n = "next_id (map o_id (otp_codes d))"
  note D = bound_challenge_SomeD [OF b]
  have R: "?R = \<lparr>commits = [add_otp d ?new],
                 sess = s\<lparr>s_pending_operation_otp_id := Some ?n\<rparr>,
                 resp = Redirect Finance_confirmar_operacion (Some Otp_resent)\<rparr>"
    by (rule reenviar_otp_operacion_bound [OF b])
  have fin: "final_db d ?R = add_otp d ?new" by (simp add: R final_db_def)
  have se: "sess ?R = s\<lparr>s_pending_operation_otp_id := Some ?n\<rparr>" by (simp add: R)
  have old_in: "o_id old \<in> set (map o_id (otp_codes d))"
    using otp_by_id_user_mem [OF D(6)] by auto
  have neq: "?n \<noteq> o_id old" using next_id_notin [of "map o_id (otp_codes d)"] old_in by metis
  have n0: "?n \<noteq> 0" by (simp add: next_id_def)
  have nb: "bound_challenge (add_otp d ?new) (s\<lparr>s_pending_operation_otp_id := Some ?n\<rparr>) =
      Some (usr, op, ?new)"
    using D(1,2,5) n0 by (simp add: bound_challenge_def otp_by_id_user_add_new)
  have keep: "otp_by_id_user (add_otp d ?new) (o_id old) (u_id usr) = Some old"
    by (rule otp_by_id_user_add_old [OF D(6)])
  have only: "submitted_code f = generate_otp_code r"
    if "commits (confirmar_operacion E now' meth f (add_otp d ?new)
          (s\<lparr>s_pending_operation_otp_id := Some ?n\<rparr>)) \<noteq> []" for now' meth f
  proof -
    from confirmar_operacion_commits [OF that] nb
    have "submitted_code f = o_code ?new" by auto
    then show ?thesis by simp
  qed
  have rs: "resp ?R = Redirect Finance_confirmar_operacion (Some Otp_resent)" by (simp add: R)
  show ?thesis
    using neq nb keep only by (simp add: fin se rs)
qed

theorem resend_rebinds_descriptor_witness:
  "bound_challenge (final_db example_store staged_internal) (sess staged_internal) =
     Some (example_user, example_op_internal, example_challenge) \<and>
   resp resent_new_code = Redirect Finance_confirmar_operacion (Some Otp_resent) \<and>
   s_pending_operation_otp_id (sess resent_new_code) \<noteq> Some (o_id example_challenge) \<and>
   submitted_code [(''code'', ''123456'')] = o_code example_challenge \<and>
   commits old_code_after_resend = []"
proof -
  note t = resend_rebinds_descriptor [OF staged_internal_bound, of 2000000 654321 sample_env]
  have c: "submitted_code [(''code'', ''123456'')] \<noteq> generate_otp_code 654321"
    by (simp add: submitted_code_def py_defs)
  from t have "commits (confirmar_operacion sample_env 3000000 POST [(''code'', ''123456'')]
      (final_db (final_db example_store staged_internal) resent_new_code)
      (sess resent_new_code)) \<noteq> [] \<longrightarrow>
      submitted_code [(''code'', ''123456'')] = generate_otp_code 654321"
    unfolding resent_new_code_def by blast
  with c have 1: "commits old_code_after_resend = []"
    by (auto simp: old_code_after_resend_def)
  from t have 2: "resp resent_new_code = Redirect Finance_confirmar_operacion (Some Otp_resent)"
    unfolding resent_new_code_def by blast
  from t have b: "bound_challenge (final_db (final_db example_store staged_internal) resent_new_code)
      (sess resent_new_code) =
      Some (example_user, example_op_internal,
        new_otp (final_db example_store staged_internal) (u_id example_user)
          (generate_otp_code 654321) 2000000)"
    and n: "o_id (new_otp (final_db example_store staged_internal) (u_id example_user)
          (generate_otp_code 654321) 2000000) \<noteq> o_id example_challenge"
    unfolding resent_new_code_def by blast+
  from bound_challenge_SomeD(3) [OF b] n
  have 3: "s_pending_operation_otp_id (sess resent_new_code) \<noteq> Some (o_id example_challenge)"
    by simp
  show ?thesis
    using 1 2 3 staged_internal_bound submitted_code_example(1) by simp
qed

text \<open>
  The specification has it that the code of the previously bound challenge can never
  confirm the operation again. Codes are drawn at random with no uniqueness constraint:
  here the resend draws 123456 again, the descriptor is bound to challenge 2, and the old
  code confirms the transfer (challenge 1 stays unused, challenge 2 is consumed).
\<close>

theorem old_code_after_resend_counterexample:
  "bound_challenge (final_db example_store staged_internal) (sess staged_internal) =
     Some (example_user, example_op_internal, example_challenge) \<and>
   o_code example_challenge = ''123456'' \<and>
   resp resent_same_code = Redirect Finance_confirmar_operacion (Some Otp_resent) \<and>
   s_pending_operation_otp_id (sess resent_same_code) = Some 2 \<and>
   o_id example_challenge = 1 \<and>
   submitted_code [(''code'', ''123456'')] = o_code example_challenge \<and>
   resp confirmed_after_resend = Redirect Finance_dashboard (Some Transfer_internal_done) \<and>
   map o_used (otp_codes (final_db example_store confirmed_after_resend)) = [False, True]"
proof -
  have r: "resent_same_code =
      \<lparr>commits = [add_otp (final_db example_store staged_internal)
                    (new_otp (final_db example_store staged_internal) (u_id example_user)
                       (generate_otp_code 123456) 2000000)],
       sess = (sess staged_internal)\<lparr>s_pending_operation_otp_id :=
                Some (next_id (map o_id (otp_codes (final_db example_store staged_internal))))\<rparr>,
       resp = Redirect Finance_confirmar_operacion (Some Otp_resent)\<rparr>"
    unfolding resent_same_code_def
    by (rule reenviar_otp_operacion_bound [OF staged_internal_bound])
  have 1: "resp resent_same_code = Redirect Finance_confirmar_operacion (Some Otp_resent)"
    by (simp add: r)
  have 2: "s_pending_operation_otp_id (sess resent_same_code) = Some 2"
    unfolding r staged_internal_eval example_defs by (simp add: store_defs)
  have 3: "resp confirmed_after_resend = Redirect Finance_dashboard (Some Transfer_internal_done) \<and>
      map o_used (otp_codes (final_db example_store confirmed_after_resend)) = [False, True]"
    unfolding confirmed_after_resend_def r staged_internal_eval example_defs
    by (simp add: py_defs store_defs sample_defs finance_defs Let_def)
  show ?thesis
    using 1 2 3 staged_internal_bound submitted_code_example(1)
    by (simp add: example_challenge_def)
qed

section \<open>Staging an account\<close>

lemma create_account_rejected:
  "Decimal E (or_str (Some (strip (form_get_default f ''initial_balance'' ''0''))) ''0'') = None
   \<longrightarrow> commits (create_account E now r f d s) = [] \<and> sess (create_account E now r f d s) = s"
  unfolding create_account_def login_required_def create_account_view_def Let_def
  by (simp split: option.split)

lemma create_account_staged:
  assumes u: "\<not> falsy_id (s_user_id s)" "session_user d s = Some usr"
    and ok: "form_get_default f ''bank_type'' ''OTRO'' \<in> set BANK_TYPES"
      "strip (form_get_default f ''name'' []) \<noteq> []"
      "Decimal E (or_str (Some (strip (form_get_default f ''initial_balance'' ''0''))) ''0'') = Some v"
  shows "create_account E now r f d s =
           \<lparr>commits = [add_otp d (new_otp d (u_id usr) (generate_otp_code r) now)],
            sess = s\<lparr>s_pending_operation :=
                       Some \<lparr>op_name = ''create_account'',
                             op_payload =
                               [(''bank_type'', Some (form_get_default f ''bank_type'' ''OTRO'')),
                                (''name'', Some (strip (form_get_default f ''name'' []))),
                                (''initial_balance'',
                                 Some (or_str (Some (strip (form_get_default f
                                          ''initial_balance'' ''0''))) ''0''))],
                             op_created_at = now\<rparr>,
                     s_pending_operation_otp_id := Some (next_id (map o_id (otp_codes d)))\<rparr>,
            resp = Redirect Finance_confirmar_operacion (Some Otp_sent_create_account)\<rparr>"
  using assms
  unfolding create_account_def login_required_def create_account_view_def Let_def
    start_operation_otp_def
  by simp

text \<open>
  C5 (as amended). For an open-account request of a logged-in user: if the initial-balance
  string does not parse, staging rejects the request before any state change (nothing is
  committed and the session is as before); if it parses, with a known bank type and a
  non-empty alias, the request is staged whatever the sign of the number, a negative one
  included: one OTP challenge is written and the descriptor is bound to it, and no account
  and no transaction is created at staging.
\<close>

theorem create_account_staging:
  assumes u: "\<not> falsy_id (s_user_id s)" "session_user d s = Some usr"
  shows "(Decimal E (or_str (Some (strip (form_get_default f ''initial_balance'' ''0''))) ''0'') = None
            \<longrightarrow> commits (create_account E now r f d s) = [] \<and>
                sess (create_account E now r f d s) = s) \<and>
         (form_get_default f ''bank_type'' ''OTRO'' \<in> set BANK_TYPES \<and>
          strip (form_get_default f ''name'' []) \<noteq> [] \<and>
          Decimal E (or_str (Some (strip (form_get_default f ''initial_balance'' ''0''))) ''0'') = Some v
            \<longrightarrow> resp (create_account E now r f d s) =
                  Redirect Finance_confirmar_operacion (Some Otp_sent_create_account) \<and>
                otp_codes (final_db d (create_account E now r f d s)) =
                  otp_codes d @ [new_otp d (u_id usr) (generate_otp_code r) now] \<and>
                accounts (final_db d (create_account E now r f d s)) = accounts d \<and>
                transactions (final_db d (create_account E now r f d s)) = transactions d \<and>
                s_pending_operation (sess (create_account E now r f d s)) \<noteq> None \<and>
                s_pending_operation_otp_id (sess (create_account E now r f d s)) =
                  Some (o_id (new_otp d (u_id usr) (generate_otp_code r) now)))"
proof (intro conjI impI)
  assume "form_get_default f ''bank_type'' ''OTRO'' \<in> set BANK_TYPES \<and>
          strip (form_get_default f ''name'' []) \<noteq> [] \<and>
          Decimal E (or_str (Some (strip (form_get_default f ''initial_balance'' ''0''))) ''0'') = Some v"
  then have R: "create_account E now r f d s =
           \<lparr>commits = [add_otp d (new_otp d (u_id usr) (generate_otp_code r) now)],
            sess = s\<lparr>s_pending_operation :=
                       Some \<lparr>op_name = ''create_account'',
                             op_payload =
                               [(''bank_type'', Some (form_get_default f ''bank_type'' ''OTRO'')),
                                (''name'', Some (strip (form_get_default f ''name'' []))),
                                (''initial_balance'',
                                 Some (or_str (Some (strip (form_get_default f
                                          ''initial_balance'' ''0''))) ''0''))],
                             op_created_at = now\<rparr>,
                     s_pending_operation_otp_id := Some (next_id (map o_id (otp_codes d)))\<rparr>,
            resp = Redirect Finance_confirmar_operacion (Some Otp_sent_create_account)\<rparr>"
    using create_account_staged [OF u] by blast
  show "resp (create_account E now r f d s) =
          Redirect Finance_confirmar_operacion (Some Otp_sent_create_account)"
    and "otp_codes (final_db d (create_account E now r f d s)) =
          otp_codes d @ [new_otp d (u_id usr) (generate_otp_code r) now]"
    and "accounts (final_db d (create_account E now r f d s)) = accounts d"
    and "transactions (final_db d (create_account E now r f d s)) = transactions d"
    and "s_pending_operation (sess (create_account E now r f d s)) \<noteq> None"
    and "s_pending_operation_otp_id (sess (create_account E now r f d s)) =
          Some (o_id (new_otp d (u_id usr) (generate_otp_code r) now))"
    by (simp_all add: R final_db_def)
qed (use create_account_rejected [of E f now r d s] in simp_all)

lemma example_session_user:
  "\<not> falsy_id (s_user_id example_session)"
  "session_user example_store example_session = Some example_user"
  by (simp_all add: example_defs store_defs py_defs)

theorem create_account_staging_witness:
  "\<not> falsy_id (s_user_id example_session) \<and>
   session_user example_store example_session = Some example_user \<and>
   Decimal sample_env ''-5'' = Some (- 5) \<and>
   resp staged_negative = Redirect Finance_confirmar_operacion (Some Otp_sent_create_account) \<and>
   accounts (final_db example_store staged_negative) = accounts example_store \<and>
   Decimal sample_env ''five'' = None \<and>
   commits (create_account sample_env 0 123456
              [(''bank_type'', ''NEQUI''), (''name'', ''Daily''), (''initial_balance'', ''five'')]
              example_store example_session) = []"
proof -
  let ?f = "[(''bank_type'', ''NEQUI''), (''name'', ''Daily''), (''initial_balance'', ''-5'')]"
  let ?g = "[(''bank_type'', ''NEQUI''), (''name'', ''Daily''), (''initial_balance'', ''five'')]"
  have p: "Decimal sample_env ''-5'' = Some (- 5)" "Decimal sample_env ''five'' = None"
    by (simp_all add: sample_defs)
  have f: "form_get_default ?f ''bank_type'' ''OTRO'' \<in> set BANK_TYPES \<and>
      strip (form_get_default ?f ''name'' []) \<noteq> [] \<and>
      Decimal sample_env (or_str (Some (strip (form_get_default ?f ''initial_balance'' ''0''))) ''0'')
        = Some (- 5)"
    by (simp add: py_defs sample_defs BANK_TYPES_def)
  have g: "Decimal sample_env (or_str (Some (strip (form_get_default ?g ''initial_balance'' ''0''))) ''0'')
        = None"
    by (simp add: py_defs sample_defs)
  note t1 = create_account_staging [OF example_session_user,
      where E = sample_env and f = ?f and v = "- 5" and now = 0 and r = 123456,
      THEN conjunct2, rule_format, OF f]
  have 1: "resp staged_negative = Redirect Finance_confirmar_operacion (Some Otp_sent_create_account)"
      "accounts (final_db example_store staged_negative) = accounts example_store"
    unfolding staged_negative_def using t1 by simp_all
  note t2 = create_account_staging [OF example_session_user,
      where E = sample_env and f = ?g and v = 0 and now = 0 and r = 123456,
      THEN conjunct1, rule_format, OF g]
  have 2: "commits (create_account sample_env 0 123456 ?g example_store example_session) = []"
    using t2 by simp
  show ?thesis using 1 2 p example_session_user by simp
qed

text \<open>
  The specification has a negative initial balance rejected at staging. The
  string \<^verbatim>\<open>-5\<close> parses to a negative number, the request is staged (a challenge and a
  descriptor are created), and the confirmation opens the account with balance \<open>-5\<close>.
\<close>

theorem negative_balance_staged_counterexample:
  "Decimal sample_env ''-5'' = Some (- 5) \<and> (- 5 :: decimal) < 0 \<and>
   resp staged_negative = Redirect Finance_confirmar_operacion (Some Otp_sent_create_account) \<and>
   otp_codes example_store = [] \<and>
   map o_code (otp_codes (final_db example_store staged_negative)) = [''123456''] \<and>
   s_pending_operation (sess staged_negative) \<noteq> None \<and>
   resp confirmed_negative = Redirect Finance_dashboard (Some Account_created) \<and>
   map a_balance (accounts (final_db example_store confirmed_negative)) = [50, 0, 10, - 5]"
proof -
  have s: "staged_negative =
     \<lparr>commits = [example_store\<lparr>otp_codes :=
                  [\<lparr>o_id = 1, o_user_id = 1, o_code = ''123456'', o_created_at = 0,
                    o_used = False\<rparr>]\<rparr>],
      sess = \<lparr>s_user_id = Some 1, s_pending_otp_user_id = None,
         s_pending_operation =
           Some \<lparr>op_name = ''create_account'',
               op_payload =
                 [(''bank_type'', Some ''NEQUI''), (''name'', Some ''Daily''),
                  (''initial_balance'', Some ''-5'')],
               op_created_at = 0\<rparr>,
         s_pending_operation_otp_id = Some 1\<rparr>,
      resp = Redirect Finance_confirmar_operacion (Some Otp_sent_create_account)\<rparr>"
    unfolding staged_negative_def example_store_def example_session_def
    by (simp add: py_defs store_defs sample_defs finance_defs Let_def)
  have 1: "resp staged_negative = Redirect Finance_confirmar_operacion (Some Otp_sent_create_account)"
    "map o_code (otp_codes (final_db example_store staged_negative)) = [''123456'']"
    "s_pending_operation (sess staged_negative) \<noteq> None"
    by (simp_all add: s final_db_def)
  have 2: "resp confirmed_negative = Redirect Finance_dashboard (Some Account_created) \<and>
      map a_balance (accounts (final_db example_store confirmed_negative)) = [50, 0, 10, - 5]"
    unfolding confirmed_negative_def s example_store_def
    by (simp add: py_defs store_defs sample_defs finance_defs Let_def)
  have 3: "Decimal sample_env ''-5'' = Some (- 5)" "otp_codes example_store = []"
    by (simp_all add: sample_defs example_store_def)
  show ?thesis using 1 2 3 by simp
qed

section \<open>The code at login\<close>

lemma latest_created_None: "latest_created xs = None \<longleftrightarrow> xs = []"
  by (induction xs) (auto split: option.splits)

lemma latest_created_Some:
  "latest_created xs = Some c \<Longrightarrow>
     c \<in> set xs \<and> (\<forall>x \<in> set xs. o_created_at x \<le> o_created_at c)"
proof (induction xs arbitrary: c)
  case Nil
  then show ?case by simp
next
  case (Cons x xs)
  show ?case
  proof (cases "latest_created xs")
    case None
    then have "xs = []" by (simp add: latest_created_None)
    with Cons.prems None show ?thesis by simp
  next
    case (Some y)
    from Cons.IH [OF Some] have y: "y \<in> set xs" "\<forall>z \<in> set xs. o_created_at z \<le> o_created_at y"
      by auto
    show ?thesis
    proof (cases "o_created_at x < o_created_at y")
      case True
      with Cons.prems Some have "c = y" by simp
      have "o_created_at z \<le> o_created_at y" if "z \<in> set (x # xs)" for z
        using y(2) that True by auto
      with \<open>c = y\<close> y(1) show ?thesis by simp
    next
      case False
      with Cons.prems Some have "c = x" by simp
      have "o_created_at z \<le> o_created_at x" if "z \<in> set xs" for z
        using y(2) that False by (metis linorder_not_less order_trans)
      with \<open>c = x\<close> show ?thesis by simp
    qed
  qed
qed

lemma user_by_id_id: "user_by_id d i = Some usr \<Longrightarrow> u_id usr = i"
  by (auto simp: user_by_id_def dest: find_mem)

lemma verify_otp_checked:
  assumes s: "s_pending_otp_user_id s = Some uid" "uid \<noteq> 0" "user_by_id d uid = Some usr"
    and code: "submitted_code f \<noteq> []"
  shows "verify_otp E now POST f d s =
           (case latest_created (unused_with_code d uid (submitted_code f)) of
              None \<Rightarrow> reply s (Redirect Mfa_verify_otp (Some Otp_invalid))
            | Some otp \<Rightarrow>
                if otp_is_expired E now otp
                then reply s (Redirect Mfa_verify_otp (Some Otp_expired))
                else \<lparr>commits = [set_otp_used d (o_id otp)],
                      sess = s\<lparr>s_pending_otp_user_id := None, s_user_id := Some uid\<rparr>,
                      resp = Redirect Finance_dashboard (Some Mfa_completed)\<rparr>)"
  using s code user_by_id_id [OF s(3)]
  by (simp add: verify_otp_def submitted_code_def Let_def split: option.split)

text \<open>
  C4 (as amended). Login-time confirmation looks for the unused challenges of the user
  that carry the submitted code and takes the most recently created of them. A submitted
  code therefore succeeds if and only if the user has an unused challenge with that code
  that is not older than \<open>max_age\<close>; on success the challenge consumed is a most recent
  one among the unused challenges with that code. Challenges with another code, newer
  ones included, play no part.
\<close>

theorem login_code_accepted_iff:
  assumes s: "s_pending_otp_user_id s = Some uid" "uid \<noteq> 0" "user_by_id d uid = Some usr"
    and code: "submitted_code f \<noteq> []"
  shows "(resp (verify_otp E now POST f d s) = Redirect Finance_dashboard (Some Mfa_completed) \<longleftrightarrow>
          (\<exists>c \<in> set (otp_codes d). o_user_id c = uid \<and> \<not> o_used c \<and>
             o_code c = submitted_code f \<and> \<not> otp_is_expired E now c)) \<and>
         (resp (verify_otp E now POST f d s) = Redirect Finance_dashboard (Some Mfa_completed) \<longrightarrow>
          (\<exists>c \<in> set (otp_codes d). o_user_id c = uid \<and> \<not> o_used c \<and>
             o_code c = submitted_code f \<and>
             (\<forall>c' \<in> set (otp_codes d). o_user_id c' = uid \<and> \<not> o_used c' \<and>
                o_code c' = submitted_code f \<longrightarrow> o_created_at c' \<le> o_created_at c) \<and>
             commits (verify_otp E now POST f d s) = [set_otp_used d (o_id c)]))"
proof -
  let ?V = "verify_otp E now POST f d s"
  let ?xs = "unused_with_code d uid (submitted_code f)"
  let ?ok = "Redirect Finance_dashboard (Some Mfa_completed)"
  note V = verify_otp_checked [OF s code, of E now]
  have mem: "c \<in> set ?xs \<longleftrightarrow> c \<in> set (otp_codes d) \<and> o_user_id c = uid \<and> \<not> o_used c \<and>
      o_code c = submitted_code f" for c
    by (auto simp: unused_with_code_def)
  have fwd: "\<exists>c \<in> set (otp_codes d). o_user_id c = uid \<and> \<not> o_used c \<and>
             o_code c = submitted_code f \<and> \<not> otp_is_expired E now c \<and>
             (\<forall>c' \<in> set (otp_codes d). o_user_id c' = uid \<and> \<not> o_used c' \<and>
                o_code c' = submitted_code f \<longrightarrow> o_created_at c' \<le> o_created_at c) \<and>
             commits ?V = [set_otp_used d (o_id c)]"
    if ok: "resp ?V = ?ok"
  proof (cases "latest_created ?xs")
    case None
    with ok V show ?thesis by simp
  next
    case (Some otp)
    with ok V have ne: "\<not> otp_is_expired E now otp" by (auto split: if_splits)
    with Some V have cm: "commits ?V = [set_otp_used d (o_id otp)]" by simp
    from latest_created_Some [OF Some] have o: "otp \<in> set ?xs"
      and le: "\<forall>x \<in> set ?xs. o_created_at x \<le> o_created_at otp" by simp_all
    from o have o': "otp \<in> set (otp_codes d)" "o_user_id otp = uid" "\<not> o_used otp"
      "o_code otp = submitted_code f" by (simp_all add: mem)
    have le': "\<forall>c' \<in> set (otp_codes d). o_user_id c' = uid \<and> \<not> o_used c' \<and>
                o_code c' = submitted_code f \<longrightarrow> o_created_at c' \<le> o_created_at otp"
      using le by (simp add: mem)
    show ?thesis
      by (rule bexI [OF _ o'(1)]) (use o' le' ne cm in simp)
  qed
  have bwd: "resp ?V = ?ok"
    if "\<exists>c \<in> set (otp_codes d). o_user_id c = uid \<and> \<not> o_used c \<and>
             o_code c = submitted_code f \<and> \<not> otp_is_expired E now c"
  proof -
    from that obtain c where "c \<in> set (otp_codes d)" "o_user_id c = uid" "\<not> o_used c"
      "o_code c = submitted_code f" and c2: "\<not> otp_is_expired E now c" by (elim bexE conjE)
    then have c1: "c \<in> set ?xs" by (simp add: mem)
    note c = c1 c2
    then have "?xs \<noteq> []" by auto
    then obtain otp where otp: "latest_created ?xs = Some otp"
      using latest_created_None [of ?xs] by (cases "latest_created ?xs") auto
    from latest_created_Some [OF otp] c(1) have "o_created_at c \<le> o_created_at otp" by auto
    with c(2) have "\<not> otp_is_expired E now otp" by (simp add: otp_is_expired_def)
    with otp V show ?thesis by simp
  qed
  show ?thesis
  proof (intro conjI iffI impI)
    assume "resp ?V = ?ok"
    from fwd [OF this] show "\<exists>c \<in> set (otp_codes d). o_user_id c = uid \<and> \<not> o_used c \<and>
             o_code c = submitted_code f \<and> \<not> otp_is_expired E now c"
      by (elim bexE conjE) (rule bexI, simp_all)
  next
    assume "\<exists>c \<in> set (otp_codes d). o_user_id c = uid \<and> \<not> o_used c \<and>
             o_code c = submitted_code f \<and> \<not> otp_is_expired E now c"
    then show "resp ?V = ?ok" by (rule bwd)
  next
    assume "resp ?V = ?ok"
    from fwd [OF this] show "\<exists>c \<in> set (otp_codes d). o_user_id c = uid \<and> \<not> o_used c \<and>
             o_code c = submitted_code f \<and>
             (\<forall>c' \<in> set (otp_codes d). o_user_id c' = uid \<and> \<not> o_used c' \<and>
                o_code c' = submitted_code f \<longrightarrow> o_created_at c' \<le> o_created_at c) \<and>
             commits ?V = [set_otp_used d (o_id c)]"
      by (elim bexE conjE) (rule bexI, simp_all)
  qed
qed

lemmas auth_defs = register_def register_commits_def verify_email_def login_def logout_def
  unused_with_code_def verify_otp_def

lemma logged_twice_eval:
  "final_db (final_db example_store logged_once) logged_twice =
     example_store\<lparr>otp_codes :=
       [\<lparr>o_id = 1, o_user_id = 1, o_code = ''111111'', o_created_at = 0, o_used = False\<rparr>,
        \<lparr>o_id = 2, o_user_id = 1, o_code = ''222222'', o_created_at = 60000000,
         o_used = False\<rparr>]\<rparr>"
  "sess logged_twice = empty_session\<lparr>s_pending_otp_user_id := Some 1\<rparr>"
  unfolding logged_twice_def logged_once_def example_store_def
  by (simp_all add: py_defs store_defs sample_defs auth_defs Let_def)

theorem login_code_accepted_iff_witness:
  "s_pending_otp_user_id (sess logged_twice) = Some 1 \<and>
   user_by_id (final_db (final_db example_store logged_once) logged_twice) 1 = Some example_user \<and>
   submitted_code [(''code'', ''111111'')] \<noteq> [] \<and>
   resp older_code_login = Redirect Finance_dashboard (Some Mfa_completed)"
proof -
  let ?d = "final_db (final_db example_store logged_once) logged_twice"
  let ?c = "\<lparr>o_id = 1, o_user_id = 1, o_code = ''111111'', o_created_at = 0, o_used = False\<rparr>"
  have s: "s_pending_otp_user_id (sess logged_twice) = Some 1"
    by (simp add: logged_twice_eval)
  have u: "user_by_id ?d 1 = Some example_user"
    unfolding logged_twice_eval
    by (simp add: user_by_id_def example_store_def example_user_def)
  have c: "submitted_code [(''code'', ''111111'')] \<noteq> []"
    by (simp add: submitted_code_def py_defs)
  have m: "?c \<in> set (otp_codes ?d)" by (simp add: logged_twice_eval)
  have p: "o_user_id ?c = 1 \<and> \<not> o_used ?c \<and> o_code ?c = submitted_code [(''code'', ''111111'')] \<and>
      \<not> otp_is_expired sample_env 120000000 ?c"
    by (simp add: submitted_code_def otp_is_expired_def py_defs sample_env_def)
  have "\<exists>c \<in> set (otp_codes ?d). o_user_id c = 1 \<and> \<not> o_used c \<and>
      o_code c = submitted_code [(''code'', ''111111'')] \<and> \<not> otp_is_expired sample_env 120000000 c"
    using p m by (intro bexI [where x = ?c]) simp_all
  with login_code_accepted_iff [OF s _ u c, of sample_env 120000000, THEN conjunct1]
  have "resp (verify_otp sample_env 120000000 POST [(''code'', ''111111'')] ?d (sess logged_twice)) =
      Redirect Finance_dashboard (Some Mfa_completed)" by simp
  then show ?thesis using s u c by (simp add: older_code_login_def)
qed

text \<open>
  The specification has it that only the code of the user's latest unused challenge can
  succeed. After two logins the user has the unused challenges 111111 and, one minute
  later, 222222; the latest unused one carries 222222, and the older code 111111 still
  completes the login.
\<close>

theorem older_login_code_counterexample:
  "map o_code (otp_codes (final_db (final_db example_store logged_once) logged_twice)) =
     [''111111'', ''222222''] \<and>
   map_option o_code
     (latest_unused (final_db (final_db example_store logged_once) logged_twice) 1) =
     Some ''222222'' \<and>
   submitted_code [(''code'', ''111111'')] = ''111111'' \<and>
   resp older_code_login = Redirect Finance_dashboard (Some Mfa_completed) \<and>
   s_user_id (sess older_code_login) = Some 1"
  unfolding older_code_login_def logged_twice_eval
  unfolding latest_unused_def example_store_def
  by (simp add: py_defs store_defs sample_defs auth_defs submitted_code_def otp_is_expired_def
      Let_def)

end
